theory Spec2Isabelle
  imports Complex_Main "HOL-Library.AList"
begin

section \<open>Data model of the cluster batch analyzer\<close>

text \<open>
  The development embeds \<^verbatim>\<open>scripts/cluster/clusterbatchanalyzer.py\<close>.
  Python floats are idealised as real numbers: rounding is not modelled. Where a float
  operation of the source yields no real number (a division by zero, the square root of a
  negative number, the mean of an empty list), the text at the definition says so, and the
  case is either a branch of the model or excluded by a condition of the statements.

  An atom, as the structure loader hands it over: an element symbol and a coordinate.
  A loaded structure exposes the two lists \<^verbatim>\<open>core_atoms\<close> and
  \<^verbatim>\<open>shell_atoms\<close>.
\<close>

type_synonym vec3 = "real \<times> real \<times> real"

record atom =
  element :: string
  coordinates :: vec3

record pdb_handler =
  core_atoms :: "atom list"
  shell_atoms :: "atom list"

text \<open>
  Python dictionaries keep insertion order, so a dictionary is an association list:
  \<^const>\<open>map_of\<close> reads a key, \<^const>\<open>AList.update\<close> overwrites the key in
  place or appends it at the end, as \<^verbatim>\<open>d[k] = v\<close> does.

  The formal charge table maps an element to the pair (formal charge, reference
  coordination number); the distance thresholds are keyed by the ordered pair
  (target element, neighbor element); the radius lookup is keyed by (element, charge) and
  holds the pair of optional values \<^verbatim>\<open>ionic_radius\<close> and
  \<^verbatim>\<open>volume\<close> (\<^verbatim>\<open>None\<close> is \<^const>\<open>None\<close>).
\<close>

type_synonym charge_table = "(string \<times> (real \<times> int)) list"
type_synonym threshold_table = "((string \<times> string) \<times> real) list"
type_synonym radius_entry = "real option \<times> real option"
type_synonym radius_table = "((string \<times> real) \<times> radius_entry) list"

text \<open>
  The fields of \<^verbatim>\<open>ClusterBatchAnalyzer\<close> that the analysis reads.
  \<^verbatim>\<open>radius_lookup\<close> is an attribute only when the constructor built it
  (volume method \<^verbatim>\<open>'ionic_radius'\<close>), hence the option.
\<close>

record analyzer =
  target_elements :: "string list"
  neighbor_elements :: "string list"
  distance_thresholds :: threshold_table
  charges :: charge_table
  volume_method :: string
  radius_lookup :: "radius_table option"

datatype error =
    LoadError string
  | KeyError string
  | ValueError string
  | TypeError string
  | AttributeError string
  | ZeroDivisionError
  | QhullError
  | NameError string
  | IndexError string
  | OverflowError string

section \<open>Charge aggregator\<close>

text \<open>
  \<^verbatim>\<open>self.charges.get(atom.element, (0, 0))\<close>: the table's tuple, or
  \<^verbatim>\<open>(0, 0)\<close> for an element the table does not have.
\<close>

definition charges_get :: "charge_table \<Rightarrow> string \<Rightarrow> real \<times> int" where
  "charges_get tbl e = (case map_of tbl e of None \<Rightarrow> (0, 0) | Some t \<Rightarrow> t)"

text \<open>
  One \<^verbatim>\<open>for atom in ...: total_charge += charge\<close> loop of
  \<^verbatim>\<open>calculate_cluster_charge\<close>, from the running total.
\<close>

fun add_charges :: "charge_table \<Rightarrow> real \<Rightarrow> atom list \<Rightarrow> real" where
  "add_charges tbl total_charge [] = total_charge"
| "add_charges tbl total_charge (a # as) =
     add_charges tbl (total_charge + fst (charges_get tbl (element a))) as"

definition calculate_cluster_charge :: "analyzer \<Rightarrow> pdb_handler \<Rightarrow> real" where
  "calculate_cluster_charge self h =
     add_charges (charges self) (add_charges (charges self) 0 (core_atoms h)) (shell_atoms h)"

section \<open>Coordination counter\<close>

text \<open>
  \<^verbatim>\<open>np.linalg.norm(np.array(a) - np.array(b))\<close> on two coordinates, and
  \<^verbatim>\<open>are_connected\<close>, which compares it with the threshold by
  \<^verbatim>\<open><=\<close>.
\<close>

definition vec_sub :: "vec3 \<Rightarrow> vec3 \<Rightarrow> vec3" where
  "vec_sub p q = (case p of (px, py, pz) \<Rightarrow> case q of (qx, qy, qz) \<Rightarrow> (px - qx, py - qy, pz - qz))"

definition vec_norm :: "vec3 \<Rightarrow> real" where
  "vec_norm v = (case v of (x, y, z) \<Rightarrow> sqrt (x\<^sup>2 + y\<^sup>2 + z\<^sup>2))"

definition are_connected :: "atom \<Rightarrow> atom \<Rightarrow> real \<Rightarrow> bool" where
  "are_connected atom1 atom2 threshold =
     (vec_norm (vec_sub (coordinates atom1) (coordinates atom2)) \<le> threshold)"

text \<open>
  \<^verbatim>\<open>np.mean\<close> and \<^verbatim>\<open>np.std\<close> (population standard deviation,
  \<^verbatim>\<open>ddof=0\<close>) of a list. On an empty list numpy returns \<^verbatim>\<open>nan\<close>;
  every list the analyzer passes is non-empty (\<open>coordination_lists_nonempty\<close>,
  \<open>buckets_nonempty\<close> below).
\<close>

definition np_mean :: "real list \<Rightarrow> real" where
  "np_mean xs = sum_list xs / real (length xs)"

definition np_std :: "real list \<Rightarrow> real" where
  "np_std xs = sqrt (np_mean (map (\<lambda>x. (x - np_mean xs)\<^sup>2) xs))"

text \<open>
  \<^verbatim>\<open>counts = {neighbor: 0 for neighbor in self.neighbor_elements}\<close>: one zero
  count per configured neighbor element (a repeated element is one key).
\<close>

fun init_counts :: "(string \<times> nat) list \<Rightarrow> string list \<Rightarrow> (string \<times> nat) list" where
  "init_counts counts [] = counts"
| "init_counts counts (neighbor # rest) = init_counts (AList.update neighbor 0 counts) rest"

text \<open>
  The inner loop over \<^verbatim>\<open>pdb_handler.core_atoms + pdb_handler.shell_atoms\<close> for one
  target atom. The three nested tests of the source are kept in their order; the increment
  \<^verbatim>\<open>counts[other_atom.element] += 1\<close> rewrites the entry of a key that the first
  test guarantees to be present. The loop visits every atom of the two lists and has no
  test that sets the target atom itself apart.
\<close>

fun count_neighbors ::
  "analyzer \<Rightarrow> atom \<Rightarrow> (string \<times> nat) list \<Rightarrow> atom list \<Rightarrow> (string \<times> nat) list" where
  "count_neighbors self a counts [] = counts"
| "count_neighbors self a counts (other_atom # rest) =
     count_neighbors self a
       (if element other_atom \<in> set (neighbor_elements self) then
          (case map_of (distance_thresholds self) (element a, element other_atom) of
             None \<Rightarrow> counts
           | Some threshold \<Rightarrow>
               if are_connected a other_atom threshold
               then AList.map_entry (element other_atom) (\<lambda>c. c + 1) counts
               else counts)
        else counts)
       rest"

text \<open>
  \<^verbatim>\<open>coordination_numbers[(atom.element, neighbor)].append(count)\<close> for every item
  of \<^verbatim>\<open>counts\<close>, on a \<^verbatim>\<open>defaultdict(list)\<close>.
\<close>

fun append_counts ::
  "string \<Rightarrow> ((string \<times> string) \<times> nat list) list \<Rightarrow> (string \<times> nat) list \<Rightarrow>
     ((string \<times> string) \<times> nat list) list" where
  "append_counts e cn [] = cn"
| "append_counts e cn ((neighbor, count) # rest) =
     append_counts e
       (AList.update (e, neighbor)
          ((case map_of cn (e, neighbor) of None \<Rightarrow> [] | Some l \<Rightarrow> l) @ [count]) cn)
       rest"

fun coordination_loop ::
  "analyzer \<Rightarrow> atom list \<Rightarrow> ((string \<times> string) \<times> nat list) list \<Rightarrow> atom list \<Rightarrow>
     ((string \<times> string) \<times> nat list) list" where
  "coordination_loop self all_atoms cn [] = cn"
| "coordination_loop self all_atoms cn (a # targets) =
     coordination_loop self all_atoms
       (append_counts (element a) cn
          (count_neighbors self a (init_counts [] (neighbor_elements self)) all_atoms))
       targets"

type_synonym coordination_stats = "((string \<times> string) \<times> (real \<times> real)) list"

definition calculate_coordination_numbers ::
  "analyzer \<Rightarrow> pdb_handler \<Rightarrow> atom list \<Rightarrow> coordination_stats" where
  "calculate_coordination_numbers self h target_atoms =
     map (\<lambda>(pair, counts). (pair, (np_mean (map real counts), np_std (map real counts))))
       (coordination_loop self (core_atoms h @ shell_atoms h) [] target_atoms)"

section \<open>Ionic-radius volume\<close>

text \<open>
  What the analyzer prints is kept as a list of diagnostics, one constructor per message of
  the source.
\<close>

datatype diagnostic =
    VolumeIsNone string real
  | NoRadiusInLookup string real
  | NotEnoughAtoms
  | ErrorProcessingFile string error
  | NoTargetCount nat

text \<open>
  \<^verbatim>\<open>element_counts[key] += 1\<close> on a \<^verbatim>\<open>defaultdict(int)\<close>, for
  every atom, with the key (element, tabulated charge or 0).
\<close>

definition volume_key :: "charge_table \<Rightarrow> atom \<Rightarrow> string \<times> real" where
  "volume_key tbl a = (element a, fst (charges_get tbl (element a)))"

fun count_elements ::
  "charge_table \<Rightarrow> ((string \<times> real) \<times> nat) list \<Rightarrow> atom list \<Rightarrow> ((string \<times> real) \<times> nat) list" where
  "count_elements tbl element_counts [] = element_counts"
| "count_elements tbl element_counts (a # as) =
     count_elements tbl
       (AList.update (volume_key tbl a)
          ((case map_of element_counts (volume_key tbl a) of None \<Rightarrow> 0 | Some c \<Rightarrow> c) + 1)
          element_counts)
       as"

text \<open>
  The summation loop: a group whose key is in the lookup with a volume adds
  \<^verbatim>\<open>count * volume\<close>; a group whose volume is \<^verbatim>\<open>None\<close>, or whose key
  is not in the lookup, prints a warning and adds nothing.
\<close>

fun sum_volumes ::
  "radius_table \<Rightarrow> real \<times> diagnostic list \<Rightarrow> ((string \<times> real) \<times> nat) list \<Rightarrow>
     real \<times> diagnostic list" where
  "sum_volumes rl (total_volume, out) [] = (total_volume, out)"
| "sum_volumes rl (total_volume, out) ((key, count) # rest) =
     sum_volumes rl
       (case map_of rl key of
          Some (r, vol) \<Rightarrow>
            (case vol of
               Some v \<Rightarrow> (total_volume + real count * v, out)
             | None \<Rightarrow> (total_volume, out @ [VolumeIsNone (fst key) (snd key)]))
        | None \<Rightarrow> (total_volume, out @ [NoRadiusInLookup (fst key) (snd key)]))
       rest"

definition estimate_total_molecular_volume ::
  "analyzer \<Rightarrow> pdb_handler \<Rightarrow> error + (real \<times> diagnostic list)" where
  "estimate_total_molecular_volume self h =
     (case radius_lookup self of
        None \<Rightarrow> Inl (AttributeError ''radius_lookup'')
      | Some rl \<Rightarrow>
          Inr (sum_volumes rl (0, [])
                 (count_elements (charges self) [] (core_atoms h @ shell_atoms h))))"

text \<open>The volume one atom ends up contributing, and the warning its group causes.\<close>

definition atom_volume :: "radius_table \<Rightarrow> string \<times> real \<Rightarrow> real" where
  "atom_volume rl key = (case map_of rl key of Some (r, Some v) \<Rightarrow> v | _ \<Rightarrow> 0)"

definition group_warning :: "radius_table \<Rightarrow> string \<times> real \<Rightarrow> diagnostic list" where
  "group_warning rl key =
     (case map_of rl key of
        Some (r, Some v) \<Rightarrow> []
      | Some (r, None) \<Rightarrow> [VolumeIsNone (fst key) (snd key)]
      | None \<Rightarrow> [NoRadiusInLookup (fst key) (snd key)])"

section \<open>Radius-lookup builder\<close>

text \<open>
  The periodic-table library is an external collaborator. What the builder reads of an
  element: its electron count, its tabulated ionic radii (charge, Roman-numeral
  coordination label, radius in pm) and its covalent radius in pm, which the library may
  report as \<^verbatim>\<open>None\<close>. The library is a parameter of the model: a function from
  the element symbol, which fails for a symbol it does not know.
\<close>

record ionic_radius_row =
  ir_charge :: real
  ir_coordination :: string
  ir_ionic_radius :: real

record element_data =
  electrons :: real
  ionic_radii :: "ionic_radius_row list"
  covalent_radius :: "real option"

type_synonym element_db = "string \<Rightarrow> error + element_data"

definition to_roman :: "int \<Rightarrow> string option" where
  "to_roman n = map_of
     [(1, ''I''), (2, ''II''), (3, ''III''), (4, ''IV''), (5, ''V''),
      (6, ''VI''), (7, ''VII''), (8, ''VIII''), (9, ''IX''), (10, ''X''),
      (11, ''XI''), (12, ''XII''), (13, ''XIII''), (14, ''XIV''), (15, ''XV'')] n"

definition sphere_volume :: "real \<Rightarrow> real" where
  "sphere_volume r = (4 / 3) * pi * r ^ 3"

text \<open>
  The entry the builder computes for a key that is not in the lookup yet, once the element
  data is at hand: the first tabulated ionic radius whose charge and coordination label both
  match, else the covalent radius. The source divides the covalent radius by 100 before it
  tests it, so a covalent radius of \<^verbatim>\<open>None\<close> is a \<^verbatim>\<open>TypeError\<close>, and
  the branch that stores \<^verbatim>\<open>None\<close> is taken for a covalent radius of 0. The
  second component says what is appended to \<^verbatim>\<open>radii_list\<close>.
\<close>

definition lookup_entry ::
  "element_data \<Rightarrow> real \<Rightarrow> string \<Rightarrow> error + (radius_entry \<times> real option list)" where
  "lookup_entry elem chg roman_coordination =
     (case find (\<lambda>ir. ir_charge ir = chg \<and> ir_coordination ir = roman_coordination)
             (ionic_radii elem) of
        Some matching_radius \<Rightarrow>
          (let radius = ir_ionic_radius matching_radius / 100
           in Inr ((Some radius, Some (sphere_volume radius)), [Some radius]))
      | None \<Rightarrow>
          (case covalent_radius elem of
             None \<Rightarrow> Inl (TypeError ''unsupported operand type(s) for /'')
           | Some cr \<Rightarrow>
               (let covalent = cr / 100
                in if covalent \<noteq> 0
                   then Inr ((Some covalent, Some (sphere_volume covalent)), [])
                   else Inr ((None, None), [None]))))"

text \<open>
  The loop over \<^verbatim>\<open>self.charges.items()\<close>. A coordination number without a Roman
  numeral (outside 1..15) prints a warning and goes on to the next element
  (\<^verbatim>\<open>continue\<close>); a key already in the lookup is left alone. The progress
  lines that the builder prints are left out of the model.
\<close>

fun build_loop ::
  "element_db \<Rightarrow> radius_table \<times> real option list \<Rightarrow> charge_table \<Rightarrow>
     error + (radius_table \<times> real option list)" where
  "build_loop db (rl, radii_list) [] = Inr (rl, radii_list)"
| "build_loop db (rl, radii_list) ((atom_type, (chg, coordination)) # rest) =
     (case to_roman coordination of
        None \<Rightarrow> build_loop db (rl, radii_list) rest
      | Some roman_coordination \<Rightarrow>
          if (atom_type, chg) \<in> fst ` set rl then build_loop db (rl, radii_list) rest
          else
            (case db atom_type of
               Inl e \<Rightarrow> Inl e
             | Inr elem \<Rightarrow>
                 (case lookup_entry elem chg roman_coordination of
                    Inl e \<Rightarrow> Inl e
                  | Inr (entry, radii) \<Rightarrow>
                      build_loop db
                        (AList.update (atom_type, chg) entry rl, radii_list @ radii) rest)))"

definition build_ionic_radius_lookup ::
  "element_db \<Rightarrow> analyzer \<Rightarrow> error + (radius_table \<times> real option list)" where
  "build_ionic_radius_lookup db self = build_loop db ([], []) (charges self)"


section \<open>Radius of gyration\<close>

text \<open>
  \<^verbatim>\<open>np.average(positions, axis=0, weights=electron_counts)\<close>: the weighted mean of
  each coordinate. numpy raises when the two lengths differ and when the weights sum to zero
  (an empty list included).
\<close>

definition np_average :: "vec3 list \<Rightarrow> real list \<Rightarrow> error + vec3" where
  "np_average positions weights =
     (if length positions \<noteq> length weights
      then Inl (ValueError ''Length of weights not compatible with specified axis.'')
      else if sum_list weights = 0 then Inl ZeroDivisionError
      else Inr ((\<Sum>(p, w)\<leftarrow>zip positions weights. w * fst p) / sum_list weights,
                (\<Sum>(p, w)\<leftarrow>zip positions weights. w * fst (snd p)) / sum_list weights,
                (\<Sum>(p, w)\<leftarrow>zip positions weights. w * snd (snd p)) / sum_list weights))"

definition sq_dist :: "vec3 \<Rightarrow> vec3 \<Rightarrow> real" where
  "sq_dist p q = (case vec_sub p q of (x, y, z) \<Rightarrow> x\<^sup>2 + y\<^sup>2 + z\<^sup>2)"

text \<open>
  \<^verbatim>\<open>calculate_radius_of_gyration\<close>. \<^verbatim>\<open>np.sqrt\<close> of a negative number is
  \<^verbatim>\<open>nan\<close>, which the model does not have: the square root below is the one of the
  source for a radicand that is not negative, which weights that are not negative ensure.
\<close>

definition calculate_radius_of_gyration :: "vec3 list \<Rightarrow> real list \<Rightarrow> error + real" where
  "calculate_radius_of_gyration atom_positions electron_counts =
     (case np_average atom_positions electron_counts of
        Inl e \<Rightarrow> Inl e
      | Inr center_of_mass \<Rightarrow>
          (let squared_distances =
                 (\<Sum>(p, w)\<leftarrow>zip atom_positions electron_counts. w * sq_dist p center_of_mass);
               total_electrons = sum_list electron_counts
           in Inr (sqrt (squared_distances / total_electrons))))"

text \<open>
  \<^verbatim>\<open>get_electron_counts\<close>: the library's electron count of the element minus the
  tabulated charge (0 for an element the table lacks); the library call fails for a symbol
  it does not know.
\<close>

fun get_electron_counts :: "element_db \<Rightarrow> charge_table \<Rightarrow> atom list \<Rightarrow> error + real list" where
  "get_electron_counts db tbl [] = Inr []"
| "get_electron_counts db tbl (a # as) =
     (case db (element a) of
        Inl e \<Rightarrow> Inl e
      | Inr elem_info \<Rightarrow>
          (case get_electron_counts db tbl as of
             Inl e \<Rightarrow> Inl e
           | Inr electron_counts \<Rightarrow>
               Inr ((electrons elem_info - fst (charges_get tbl (element a))) # electron_counts)))"

definition estimate_volume_using_rg :: "element_db \<Rightarrow> analyzer \<Rightarrow> pdb_handler \<Rightarrow> error + real" where
  "estimate_volume_using_rg db self h =
     (case get_electron_counts db (charges self) (core_atoms h @ shell_atoms h) of
        Inl e \<Rightarrow> Inl e
      | Inr electron_counts \<Rightarrow>
          (case calculate_radius_of_gyration
                  (map coordinates (core_atoms h @ shell_atoms h)) electron_counts of
             Inl e \<Rightarrow> Inl e
           | Inr rg \<Rightarrow> Inr ((4 / 3) * pi * rg ^ 3)))"

section \<open>Convex-hull volume\<close>

text \<open>
  The collaborators outside the repository, as parameters of the model: the structure
  loader (\<^verbatim>\<open>PDBFileHandler(pdb_file, ...)\<close>, which may raise), the periodic-table
  library and the hull routine of the geometry library
  (\<^verbatim>\<open>ConvexHull(points).volume\<close>, which raises on a degenerate point set).
\<close>

record externals =
  load_structure :: "string \<Rightarrow> error + pdb_handler"
  element_info :: element_db
  hull_volume :: "vec3 list \<Rightarrow> error + real"

definition calculate_cluster_volume ::
  "externals \<Rightarrow> pdb_handler \<Rightarrow> error + (real \<times> diagnostic list)" where
  "calculate_cluster_volume ext h =
     (if length (core_atoms h @ shell_atoms h) < 4 then Inr (0, [NotEnoughAtoms])
      else (case hull_volume ext (map coordinates (core_atoms h @ shell_atoms h)) of
              Inl e \<Rightarrow> Inl e
            | Inr v \<Rightarrow> Inr (v, [])))"

text \<open>
  What the statements about the hull volume rely on, since the hull routine is not code of
  the repository. The tetrahedra of a point list are its sublists of four points; the
  volume of a tetrahedron is a sixth of the absolute value of the determinant of its three
  edge vectors at the first corner; a point list is coplanar when every one of its
  tetrahedra has the volume 0. The contract of the hull routine on a point list: it raises
  on a coplanar list, and for any other list it returns a number that is at least the
  volume of every tetrahedron of the list (the hull contains them all) and that is, for a
  list of four points, the volume of their tetrahedron.
\<close>

definition det3 :: "vec3 \<Rightarrow> vec3 \<Rightarrow> vec3 \<Rightarrow> real" where
  "det3 u v w =
     (case u of (ux, uy, uz) \<Rightarrow> case v of (vx, vy, vz) \<Rightarrow> case w of (wx, wy, wz) \<Rightarrow>
        ux * (vy * wz - vz * wy) - uy * (vx * wz - vz * wx) + uz * (vx * wy - vy * wx))"

fun tetrahedron_volume :: "vec3 list \<Rightarrow> real" where
  "tetrahedron_volume [a, b, c, d] = \<bar>det3 (vec_sub b a) (vec_sub c a) (vec_sub d a)\<bar> / 6"
| "tetrahedron_volume ps = 0"

fun sublists_of_length :: "nat \<Rightarrow> 'a list \<Rightarrow> 'a list list" where
  "sublists_of_length 0 xs = [[]]"
| "sublists_of_length (Suc k) [] = []"
| "sublists_of_length (Suc k) (x # xs) =
     map ((#) x) (sublists_of_length k xs) @ sublists_of_length (Suc k) xs"

definition tetrahedra :: "vec3 list \<Rightarrow> vec3 list list" where
  "tetrahedra ps = sublists_of_length 4 ps"

definition coplanar :: "vec3 list \<Rightarrow> bool" where
  "coplanar ps = (\<forall>t \<in> set (tetrahedra ps). tetrahedron_volume t = 0)"

definition hull_contract :: "vec3 list \<Rightarrow> error + real \<Rightarrow> bool" where
  "hull_contract ps res =
     (if coplanar ps then res = Inl QhullError
      else (\<exists>v. res = Inr v
              \<and> (\<forall>t \<in> set (tetrahedra ps). tetrahedron_volume t \<le> v)
              \<and> (length ps = 4 \<longrightarrow> v = tetrahedron_volume ps)))"

section \<open>Per-file worker and batch orchestrator\<close>

record cluster_record =
  pdb_file :: string
  cluster_size :: nat
  coordination_stats :: coordination_stats
  volume :: real
  charge :: real

text \<open>
  \<^verbatim>\<open>[self.charges[atom.element][0] for atom in target_atoms]\<close>: indexing, not
  \<^verbatim>\<open>get\<close>, so an element the table lacks is a \<^verbatim>\<open>KeyError\<close>.
\<close>

fun target_charges :: "charge_table \<Rightarrow> atom list \<Rightarrow> error + real list" where
  "target_charges tbl [] = Inr []"
| "target_charges tbl (a # as) =
     (case map_of tbl (element a) of
        None \<Rightarrow> Inl (KeyError (element a))
      | Some t \<Rightarrow>
          (case target_charges tbl as of
             Inl e \<Rightarrow> Inl e
           | Inr qs \<Rightarrow> Inr (fst t # qs)))"

text \<open>
  The volume dispatch of \<^verbatim>\<open>process_pdb_file\<close>, in the order of the source: the
  method name is compared first. The radius-of-gyration branch reads the charges of the
  target atoms by indexing and then evaluates the name
  \<^verbatim>\<open>RadiusOfGyrationCalculator\<close>, which the module neither defines nor imports: a
  \<^verbatim>\<open>NameError\<close>. The calls of the calculator and the comparison of the shape type
  that follow in that branch are therefore never reached, and the shape type, an argument
  of \<^verbatim>\<open>analyze_clusters\<close>, is read nowhere else.
\<close>

definition dispatch_volume ::
  "externals \<Rightarrow> analyzer \<Rightarrow> string \<Rightarrow> pdb_handler \<Rightarrow> atom list \<Rightarrow>
     error + (real \<times> diagnostic list)" where
  "dispatch_volume ext self shape_type h target_atoms =
     (if volume_method self = ''ionic_radius'' then estimate_total_molecular_volume self h
      else if volume_method self = ''radius_of_gyration'' then
        (case target_charges (charges self) target_atoms of
           Inl e \<Rightarrow> Inl e
         | Inr atom_charges \<Rightarrow> Inl (NameError ''RadiusOfGyrationCalculator''))
      else Inl (ValueError (''Unknown volume method: '' @ volume_method self)))"

text \<open>
  The body of the \<^verbatim>\<open>try\<close> block of \<^verbatim>\<open>process_pdb_file\<close>: an exception is
  \<^const>\<open>Inl\<close>; \<^const>\<open>None\<close> is the return for a structure without target atoms; a
  record comes with what the volume estimator printed. The source counts the coordination
  numbers before it dispatches on the volume method and sums the charge after; neither can
  raise, so the model computes both where the record is built.
\<close>

definition process_body ::
  "externals \<Rightarrow> analyzer \<Rightarrow> string \<Rightarrow> string \<Rightarrow>
     error + (cluster_record \<times> diagnostic list) option" where
  "process_body ext self shape_type file =
     (case load_structure ext file of
        Inl e \<Rightarrow> Inl e
      | Inr h \<Rightarrow>
          (let target_atoms = filter (\<lambda>a. element a \<in> set (target_elements self)) (core_atoms h)
           in if target_atoms = [] then Inr None
              else
                (case dispatch_volume ext self shape_type h target_atoms of
                   Inl e \<Rightarrow> Inl e
                 | Inr (cluster_volume, out) \<Rightarrow>
                     Inr (Some (\<lparr>pdb_file = file,
                                 cluster_size = length target_atoms,
                                 coordination_stats =
                                   calculate_coordination_numbers self h target_atoms,
                                 volume = cluster_volume,
                                 charge = calculate_cluster_charge self h\<rparr>, out)))))"

text \<open>
  What a batch run changes: the analyzer's \<^verbatim>\<open>cluster_data\<close>,
  \<^verbatim>\<open>cluster_size_distribution\<close>, \<^verbatim>\<open>average_volumes_per_size\<close> and
  \<^verbatim>\<open>no_target_atoms_files\<close>, the locals \<^verbatim>\<open>all_cluster_sizes\<close>,
  \<^verbatim>\<open>coordination_stats_per_size\<close> and \<^verbatim>\<open>no_target_atoms_count\<close> of
  \<^verbatim>\<open>analyze_clusters\<close>, and the printed output.
\<close>

record run_state =
  cluster_data :: "cluster_record list"
  cluster_size_distribution :: "(nat \<times> real list) list"
  average_volumes_per_size :: "(nat \<times> real) list"
  no_target_atoms_files :: "string list"
  all_cluster_sizes :: "nat list"
  coordination_stats_per_size :: "(nat \<times> ((string \<times> string) \<times> real list) list) list"
  no_target_atoms_count :: nat
  stdout :: "diagnostic list"

text \<open>
  \<^verbatim>\<open>process_pdb_file\<close> with its \<^verbatim>\<open>except Exception\<close> handler: an exception
  of the body is printed with the file name and the worker returns the tuple of
  \<^verbatim>\<open>None\<close>s; a structure without target atoms is appended to
  \<^verbatim>\<open>no_target_atoms_files\<close> and returns the same tuple.
\<close>

definition process_pdb_file ::
  "externals \<Rightarrow> analyzer \<Rightarrow> string \<Rightarrow> string \<Rightarrow> run_state \<Rightarrow> cluster_record option \<times> run_state" where
  "process_pdb_file ext self shape_type file st =
     (case process_body ext self shape_type file of
        Inl e \<Rightarrow> (None, st\<lparr>stdout := stdout st @ [ErrorProcessingFile file e]\<rparr>)
      | Inr None \<Rightarrow> (None, st\<lparr>no_target_atoms_files := no_target_atoms_files st @ [file]\<rparr>)
      | Inr (Some (rec, out)) \<Rightarrow> (Some rec, st\<lparr>stdout := stdout st @ out\<rparr>))"

text \<open>
  The body of the collection loop for one completed future: a result whose first component
  is not \<^verbatim>\<open>None\<close> is appended to the collections, any other result is counted.
\<close>

fun add_stats ::
  "((string \<times> string) \<times> real list) list \<Rightarrow> coordination_stats \<Rightarrow>
     ((string \<times> string) \<times> real list) list" where
  "add_stats per_pair [] = per_pair"
| "add_stats per_pair ((pair, (avg_coord, sd)) # rest) =
     add_stats
       (AList.update pair
          ((case map_of per_pair pair of None \<Rightarrow> [] | Some l \<Rightarrow> l) @ [avg_coord]) per_pair)
       rest"

definition append_to_bucket :: "nat \<Rightarrow> real \<Rightarrow> (nat \<times> real list) list \<Rightarrow> (nat \<times> real list) list" where
  "append_to_bucket sz v buckets =
     AList.update sz ((case map_of buckets sz of None \<Rightarrow> [] | Some l \<Rightarrow> l) @ [v]) buckets"

definition collect_stats ::
  "cluster_record \<Rightarrow> (nat \<times> ((string \<times> string) \<times> real list) list) list \<Rightarrow>
     (nat \<times> ((string \<times> string) \<times> real list) list) list" where
  "collect_stats rec per_size =
     (if coordination_stats rec = [] then per_size
      else AList.update (cluster_size rec)
             (add_stats (case map_of per_size (cluster_size rec) of None \<Rightarrow> [] | Some m \<Rightarrow> m)
                (coordination_stats rec))
             per_size)"

definition collect_result :: "cluster_record option \<Rightarrow> run_state \<Rightarrow> run_state" where
  "collect_result result st =
     (case result of
        Some rec \<Rightarrow>
          st\<lparr>all_cluster_sizes := all_cluster_sizes st @ [cluster_size rec],
             coordination_stats_per_size := collect_stats rec (coordination_stats_per_size st),
             cluster_data := cluster_data st @ [rec],
             cluster_size_distribution :=
               append_to_bucket (cluster_size rec) (volume rec) (cluster_size_distribution st)\<rparr>
      | None \<Rightarrow> st\<lparr>no_target_atoms_count := no_target_atoms_count st + 1\<rparr>)"

text \<open>
  The fan-out and the collection loop. The workers of the source run on a thread pool and
  their results are collected in completion order; the model runs the files one after the
  other, in the order of the list, which stands for the completion order.
\<close>

fun run_files :: "externals \<Rightarrow> analyzer \<Rightarrow> string \<Rightarrow> string list \<Rightarrow> run_state \<Rightarrow> run_state" where
  "run_files ext self shape_type [] st = st"
| "run_files ext self shape_type (file # files) st =
     (case process_pdb_file ext self shape_type file st of
        (result, st') \<Rightarrow> run_files ext self shape_type files (collect_result result st'))"

section \<open>Statistics aggregator\<close>

text \<open>
  \<^verbatim>\<open>generate_statistics\<close>: the buckets are rebuilt from \<^verbatim>\<open>cluster_data\<close>,
  one list of volumes per cluster size, and the mean of every bucket is stored.
\<close>

fun bucket_volumes :: "(nat \<times> real list) list \<Rightarrow> cluster_record list \<Rightarrow> (nat \<times> real list) list" where
  "bucket_volumes buckets [] = buckets"
| "bucket_volumes buckets (d # ds) =
     bucket_volumes (append_to_bucket (cluster_size d) (volume d) buckets) ds"

definition generate_statistics :: "run_state \<Rightarrow> run_state" where
  "generate_statistics st =
     (let buckets = bucket_volumes [] (cluster_data st)
      in st\<lparr>average_volumes_per_size := map (\<lambda>(sz, volumes). (sz, np_mean volumes)) buckets,
            cluster_size_distribution := buckets\<rparr>)"

text \<open>
  \<^verbatim>\<open>analyze_clusters\<close> up to and including \<^verbatim>\<open>generate_statistics\<close>: the
  run starts from the analyzer's state with fresh locals, runs the files, prints the count
  of files that gave no record and generates the statistics. This is the state that the
  analyzer is left in, whether or not the reporting that follows raises. Copying the
  unmatched files writes files and is not modelled.
\<close>

definition run_batch ::
  "externals \<Rightarrow> analyzer \<Rightarrow> string \<Rightarrow> string list \<Rightarrow> run_state \<Rightarrow> run_state" where
  "run_batch ext self shape_type files st =
     (let st1 = run_files ext self shape_type files
                  (st\<lparr>all_cluster_sizes := [], coordination_stats_per_size := [],
                      no_target_atoms_count := 0\<rparr>);
          st2 = st1\<lparr>stdout := stdout st1 @ [NoTargetCount (no_target_atoms_count st1)]\<rparr>
      in generate_statistics st2)"

text \<open>
  The constructor: the radius lookup is built only for the volume method
  \<^verbatim>\<open>'ionic_radius'\<close>; the method name is stored as given and compared with nothing
  else. The directory listing of the constructor is not modelled: the list of files is an
  argument of the run. The state of a new analyzer has no data.
\<close>

definition new_analyzer ::
  "externals \<Rightarrow> string list \<Rightarrow> string list \<Rightarrow> threshold_table \<Rightarrow> charge_table \<Rightarrow> string \<Rightarrow>
     error + analyzer" where
  "new_analyzer ext targets neighbors thresholds tbl method =
     (let self = \<lparr>target_elements = targets, neighbor_elements = neighbors,
                   distance_thresholds = thresholds, charges = tbl, volume_method = method,
                   radius_lookup = None\<rparr>
      in if method = ''ionic_radius''
         then (case build_ionic_radius_lookup (element_info ext) self of
                 Inl e \<Rightarrow> Inl e
               | Inr (rl, radii_list) \<Rightarrow> Inr (self\<lparr>radius_lookup := Some rl\<rparr>))
         else Inr self)"

definition initial_state :: run_state where
  "initial_state =
     \<lparr>cluster_data = [], cluster_size_distribution = [], average_volumes_per_size = [],
      no_target_atoms_files = [], all_cluster_sizes = [], coordination_stats_per_size = [],
      no_target_atoms_count = 0, stdout = []\<rparr>"

text \<open>
  The numbers of \<^verbatim>\<open>plot_average_volume_vs_cluster_size\<close> and
  \<^verbatim>\<open>plot_volume_percentage_of_scatterers\<close>. A size that is not a key reads as the
  empty bucket (\<^verbatim>\<open>defaultdict(list)\<close>).
\<close>

definition bucket :: "(nat \<times> real list) list \<Rightarrow> nat \<Rightarrow> real list" where
  "bucket buckets sz = (case map_of buckets sz of None \<Rightarrow> [] | Some volumes \<Rightarrow> volumes)"

definition sorted_sizes :: "(nat \<times> real list) list \<Rightarrow> nat list" where
  "sorted_sizes buckets = sort (map fst buckets)"

definition std_devs :: "(nat \<times> real list) list \<Rightarrow> real list" where
  "std_devs buckets = map (\<lambda>sz. np_std (bucket buckets sz)) (sorted_sizes buckets)"

fun add_cluster_volumes :: "real \<Rightarrow> (nat \<times> real list) list \<Rightarrow> real" where
  "add_cluster_volumes acc [] = acc"
| "add_cluster_volumes acc ((sz, volumes) # rest) =
     add_cluster_volumes (acc + np_mean volumes * real (length volumes)) rest"

definition total_cluster_volume :: "(nat \<times> real list) list \<Rightarrow> real" where
  "total_cluster_volume buckets = add_cluster_volumes 0 buckets"

text \<open>
  The percentage of one size. The quotient is the one of the source when the total cluster
  volume is not zero.
\<close>

definition volume_percentage :: "(nat \<times> real list) list \<Rightarrow> nat \<Rightarrow> real" where
  "volume_percentage buckets sz =
     (if length (bucket buckets sz) > 0
      then (np_mean (bucket buckets sz) * real (length (bucket buckets sz))
              / total_cluster_volume buckets) * 100
      else 0)"

text \<open>
  \<^verbatim>\<open>np.argmax\<close>: the first index of the greatest value; a
  \<^verbatim>\<open>ValueError\<close> on an empty sequence.
\<close>

fun argmax_from :: "real \<Rightarrow> nat \<Rightarrow> nat \<Rightarrow> real list \<Rightarrow> nat" where
  "argmax_from best bi i [] = bi"
| "argmax_from best bi i (x # xs) =
     (if best < x then argmax_from x i (Suc i) xs else argmax_from best bi (Suc i) xs)"

definition np_argmax :: "real list \<Rightarrow> error + nat" where
  "np_argmax xs =
     (case xs of
        [] \<Rightarrow> Inl (ValueError ''attempt to get an argmax of an empty sequence'')
      | x # rest \<Rightarrow> Inr (argmax_from x 0 1 rest))"

text \<open>
  The mode of the volume percentages: the pair \<^verbatim>\<open>(mode_size, mode_percentage)\<close>.
  With a total cluster volume of zero the floating-point quotients of the source are
  \<^verbatim>\<open>nan\<close> or infinite, which the model does not have; that case is the result
  \<^const>\<open>None\<close>.
\<close>

definition volume_percentage_mode :: "(nat \<times> real list) list \<Rightarrow> error + (nat \<times> real) option" where
  "volume_percentage_mode buckets =
     (let sizes = sorted_sizes buckets;
          volume_percentages = map (volume_percentage buckets) sizes
      in if buckets \<noteq> [] \<and> total_cluster_volume buckets = 0 then Inr None
         else (case np_argmax volume_percentages of
                 Inl e \<Rightarrow> Inl e
               | Inr mode_index \<Rightarrow>
                   Inr (Some (sizes ! mode_index, volume_percentages ! mode_index))))"

text \<open>
  \<^verbatim>\<open>plot_volume_percentage_of_scatterers\<close>, as far as it computes: the mode, and
  then the loop that weights the sizes by \<^verbatim>\<open>int(percentage * 100)\<close>. With a total
  cluster volume of zero the percentage of the first size is \<^verbatim>\<open>nan\<close> (numerator
  zero) or infinite, and \<^verbatim>\<open>int\<close> raises a \<^verbatim>\<open>ValueError\<close> or an
  \<^verbatim>\<open>OverflowError\<close>. The definition is for the distributions that
  \<^verbatim>\<open>generate_statistics\<close> leaves, in which every bucket holds a volume, so that
  the list of sizes is not empty in that case. Drawing is not modelled and is taken not to
  fail.
\<close>

definition plot_volume_percentage_of_scatterers ::
  "(nat \<times> real list) list \<Rightarrow> error + (nat \<times> real)" where
  "plot_volume_percentage_of_scatterers buckets =
     (case volume_percentage_mode buckets of
        Inl e \<Rightarrow> Inl e
      | Inr (Some m) \<Rightarrow> Inr m
      | Inr None \<Rightarrow>
          (case sorted_sizes buckets of
             [] \<Rightarrow> Inl (ValueError ''attempt to get an argmax of an empty sequence'')
           | sz # rest \<Rightarrow>
               if np_mean (bucket buckets sz) * real (length (bucket buckets sz)) = 0
               then Inl (ValueError ''cannot convert float NaN to integer'')
               else Inl (OverflowError ''cannot convert float infinity to integer'')))"

text \<open>
  \<^verbatim>\<open>analyze_clusters\<close>, the batch call: the run of the files and the statistics,
  followed by the plotting calls, which are unconditional. Of these, the first reads
  \<^verbatim>\<open>self.target_elements[0]\<close> for its axis label, an \<^verbatim>\<open>IndexError\<close> for
  an analyzer without target elements, and the volume-percentage plot raises as above; the
  others compute nothing that can raise once these two have passed. An exception of the
  plotting leaves the call; the result of a call that returns is the state with the
  collected statistics.
\<close>

definition analyze_clusters ::
  "externals \<Rightarrow> analyzer \<Rightarrow> string \<Rightarrow> string list \<Rightarrow> run_state \<Rightarrow> error + run_state" where
  "analyze_clusters ext self shape_type files st =
     (let st' = run_batch ext self shape_type files st
      in case target_elements self of
           [] \<Rightarrow> Inl (IndexError ''list index out of range'')
         | t # ts \<Rightarrow>
             (case plot_volume_percentage_of_scatterers (cluster_size_distribution st') of
                Inl e \<Rightarrow> Inl e
              | Inr m \<Rightarrow> Inr st'))"

section \<open>Outward-facing-point estimator: the dodecahedron\<close>

definition vec_add :: "vec3 \<Rightarrow> vec3 \<Rightarrow> vec3" where
  "vec_add p q = (case p of (px, py, pz) \<Rightarrow> case q of (qx, qy, qz) \<Rightarrow> (px + qx, py + qy, pz + qz))"

definition vec_scale :: "real \<Rightarrow> vec3 \<Rightarrow> vec3" where
  "vec_scale s v = (case v of (x, y, z) \<Rightarrow> (s * x, s * y, s * z))"

definition vec_div :: "vec3 \<Rightarrow> real \<Rightarrow> vec3" where
  "vec_div v s = (case v of (x, y, z) \<Rightarrow> (x / s, y / s, z / s))"

definition vec_dot :: "vec3 \<Rightarrow> vec3 \<Rightarrow> real" where
  "vec_dot p q = (case p of (px, py, pz) \<Rightarrow> case q of (qx, qy, qz) \<Rightarrow> px * qx + py * qy + pz * qz)"

definition phi :: real where
  "phi = (1 + sqrt 5) / 2"

text \<open>The array literal of \<^verbatim>\<open>generate_dodecahedron_vertices\<close>, row by row.\<close>

definition dodecahedron_rows :: "vec3 list" where
  "dodecahedron_rows =
     [(- 1, - 1, - 1), (1, - 1, - 1), (- 1, 1, - 1), (1, 1, - 1),
      (- 1, - 1, 1), (1, - 1, 1), (- 1, 1, 1), (1, 1, 1),
      (0, - 1 / phi, - phi), (0, 1 / phi, - phi), (0, - 1 / phi, phi), (0, 1 / phi, phi),
      (- 1 / phi, - phi, 0), (1 / phi, - phi, 0), (- 1 / phi, phi, 0), (1 / phi, phi, 0),
      (- phi, 0, - 1 / phi), (phi, 0, - 1 / phi), (- phi, 0, 1 / phi), (phi, 0, 1 / phi)]"

text \<open>
  \<^verbatim>\<open>vertices / np.linalg.norm(vertices[0])\<close>: every row is divided by the norm of
  the first row.
\<close>

definition generate_dodecahedron_vertices :: "vec3 list" where
  "generate_dodecahedron_vertices =
     map (\<lambda>v. vec_div v (vec_norm (dodecahedron_rows ! 0))) dodecahedron_rows"

text \<open>
  \<^verbatim>\<open>generate_outward_facing_points\<close>. For an atom at the geometric centre the
  direction is \<^verbatim>\<open>0 / 0\<close>, every comparison with \<^verbatim>\<open>nan\<close> is false and no
  vertex is kept; adding the position to an empty array is a broadcasting error.
\<close>

definition generate_outward_facing_points :: "vec3 \<Rightarrow> real \<Rightarrow> vec3 \<Rightarrow> error + vec3 list" where
  "generate_outward_facing_points position radius geometric_center =
     (let direction = vec_sub position geometric_center;
          outward_facing_vertices =
            (if vec_norm direction = 0 then []
             else filter (\<lambda>vertex. vec_dot vertex (vec_div direction (vec_norm direction)) > 0)
                    generate_dodecahedron_vertices)
      in if outward_facing_vertices = []
         then Inl (ValueError ''operands could not be broadcast together'')
         else Inr (map (\<lambda>vertex. vec_add position (vec_scale radius vertex))
                     outward_facing_vertices))"

text \<open>
  What one file contributes to a run, read off the body of its worker: the records (none or
  one) and the printed lines.
\<close>

definition file_records :: "externals \<Rightarrow> analyzer \<Rightarrow> string \<Rightarrow> string \<Rightarrow> cluster_record list" where
  "file_records ext self shape_type file =
     (case process_body ext self shape_type file of
        Inr (Some (r, out)) \<Rightarrow> [r] | _ \<Rightarrow> [])"

definition file_output :: "externals \<Rightarrow> analyzer \<Rightarrow> string \<Rightarrow> string \<Rightarrow> diagnostic list" where
  "file_output ext self shape_type file =
     (case process_body ext self shape_type file of
        Inl e \<Rightarrow> [ErrorProcessingFile file e]
      | Inr None \<Rightarrow> []
      | Inr (Some (r, out)) \<Rightarrow> out)"

section \<open>Example data\<close>

text \<open>
  A small configuration and cluster on which the statements below are evaluated: lead
  iodide with a sulfur-bearing shell. The radii are in pm as the periodic-table library
  tabulates them; the element \<^verbatim>\<open>Xx\<close> has no data. The example hull routine knows
  tetrahedra only; the last cluster is the regular tetrahedron with edges of length 1.
\<close>

definition example_db :: element_db where
  "example_db symbol =
     (if symbol = ''Pb'' then
        Inr \<lparr>electrons = 82,
             ionic_radii = [\<lparr>ir_charge = 2, ir_coordination = ''IVPY'', ir_ionic_radius = 98\<rparr>,
                            \<lparr>ir_charge = 2, ir_coordination = ''VI'', ir_ionic_radius = 119\<rparr>,
                            \<lparr>ir_charge = 4, ir_coordination = ''VI'', ir_ionic_radius = 775 / 10\<rparr>],
             covalent_radius = Some 144\<rparr>
      else if symbol = ''I'' then
        Inr \<lparr>electrons = 53,
             ionic_radii = [\<lparr>ir_charge = - 1, ir_coordination = ''VI'', ir_ionic_radius = 220\<rparr>,
                            \<lparr>ir_charge = 5, ir_coordination = ''VI'', ir_ionic_radius = 95\<rparr>],
             covalent_radius = Some 133\<rparr>
      else if symbol = ''S'' then
        Inr \<lparr>electrons = 16,
             ionic_radii = [\<lparr>ir_charge = - 2, ir_coordination = ''VI'', ir_ionic_radius = 184\<rparr>],
             covalent_radius = Some 103\<rparr>
      else if symbol = ''Q'' then
        Inr \<lparr>electrons = 1, ionic_radii = [], covalent_radius = Some 0\<rparr>
      else Inl (ValueError symbol))"

definition example_analyzer :: analyzer where
  "example_analyzer =
     \<lparr>target_elements = [''Pb''], neighbor_elements = [''I'', ''S''],
      distance_thresholds = [((''Pb'', ''I''), 7 / 2), ((''Pb'', ''S''), 3)],
      charges = [(''Pb'', (2, 6)), (''I'', (- 1, 6)), (''S'', (- 2, 4)), (''Q'', (1, 6))],
      volume_method = ''ionic_radius'',
      radius_lookup = Some [((''Pb'', 2), (Some 1, Some 4)), ((''S'', - 2), (None, None))]\<rparr>"

definition example_cluster :: pdb_handler where
  "example_cluster =
     \<lparr>core_atoms = [\<lparr>element = ''Pb'', coordinates = (0, 0, 0)\<rparr>,
                    \<lparr>element = ''I'', coordinates = (0, 0, 3)\<rparr>],
      shell_atoms = [\<lparr>element = ''S'', coordinates = (0, 4, 3)\<rparr>]\<rparr>"

definition example_externals :: externals where
  "example_externals =
     \<lparr>load_structure =
        (\<lambda>file. if file = ''a.pdb'' then Inr example_cluster
                 else if file = ''c.pdb'' then
                   Inr \<lparr>core_atoms = [\<lparr>element = ''Pb'', coordinates = (0, 0, 0)\<rparr>,
                                      \<lparr>element = ''Pb'', coordinates = (4, 0, 0)\<rparr>],
                        shell_atoms = []\<rparr>
                 else if file = ''solvent.pdb'' then
                   Inr \<lparr>core_atoms = [], shell_atoms = [\<lparr>element = ''S'', coordinates = (1, 1, 1)\<rparr>]\<rparr>
                 else Inl (LoadError file)),
      element_info = example_db,
      hull_volume =
        (\<lambda>points. if length points = 4 \<and> \<not> coplanar points
                   then Inr (tetrahedron_volume points) else Inl QhullError)\<rparr>"

definition unit_tetrahedron :: pdb_handler where
  "unit_tetrahedron =
     \<lparr>core_atoms = [\<lparr>element = ''Pb'', coordinates = (0, 0, 0)\<rparr>,
                    \<lparr>element = ''I'', coordinates = (1, 0, 0)\<rparr>],
      shell_atoms = [\<lparr>element = ''I'', coordinates = (1 / 2, sqrt 3 / 2, 0)\<rparr>,
                     \<lparr>element = ''S'', coordinates = (1 / 2, sqrt 3 / 6, sqrt 6 / 3)\<rparr>]\<rparr>"

definition example_records :: "cluster_record list" where
  "example_records =
     [\<lparr>pdb_file = ''a.pdb'', cluster_size = 2, coordination_stats = [], volume = 10, charge = 0\<rparr>,
      \<lparr>pdb_file = ''b.pdb'', cluster_size = 2, coordination_stats = [], volume = 12, charge = 0\<rparr>,
      \<lparr>pdb_file = ''c.pdb'', cluster_size = 3, coordination_stats = [], volume = 9, charge = 0\<rparr>]"

lemma add_charges_sum:
  "add_charges tbl t as = t + (\<Sum>a\<leftarrow>as. fst (charges_get tbl (element a)))"
  by (induction as arbitrary: t) simp_all

text \<open>
  Claim C9. The charge aggregator returns the sum, over every atom of the core group and
  of the shell group, of the first component of the element's tuple in the formal charge
  table, where an element the table lacks contributes 0.
\<close>

theorem calculate_cluster_charge_sum:
  "calculate_cluster_charge self h =
     (\<Sum>a\<leftarrow>core_atoms h @ shell_atoms h.
        (case map_of (charges self) (element a) of None \<Rightarrow> 0 | Some (c, n) \<Rightarrow> c))"
proof -
  have "fst (charges_get tbl e) = (case map_of tbl e of None \<Rightarrow> 0 | Some (c, n) \<Rightarrow> c)"
    for tbl :: charge_table and e
    by (simp add: charges_get_def split: option.splits prod.splits)
  then show ?thesis
    by (simp add: calculate_cluster_charge_def add_charges_sum)
qed

text \<open>
  The example of the specification: two atoms of an element of charge +2 and three atoms of
  an element of charge -1 (one of them in the core, two in the shell), together with a
  shell atom of an element the table does not list, total +1.
\<close>

theorem calculate_cluster_charge_sum_witness:
  "calculate_cluster_charge
     \<lparr>target_elements = [''Pb''], neighbor_elements = [''I''], distance_thresholds = [],
      charges = [(''Pb'', (2, 6)), (''I'', (-1, 6))], volume_method = ''ionic_radius'',
      radius_lookup = None\<rparr>
     \<lparr>core_atoms = [\<lparr>element = ''Pb'', coordinates = (0, 0, 0)\<rparr>,
                    \<lparr>element = ''Pb'', coordinates = (1, 0, 0)\<rparr>,
                    \<lparr>element = ''I'', coordinates = (0, 1, 0)\<rparr>],
      shell_atoms = [\<lparr>element = ''I'', coordinates = (0, 0, 1)\<rparr>,
                     \<lparr>element = ''Xx'', coordinates = (2, 2, 2)\<rparr>,
                     \<lparr>element = ''I'', coordinates = (0, 0, 2)\<rparr>]\<rparr> = 1"
  by (simp add: calculate_cluster_charge_sum)

lemma map_of_init_counts:
  "map_of (init_counts counts ns) n = (if n \<in> set ns then Some 0 else map_of counts n)"
  by (induction ns arbitrary: counts) (auto simp: update_conv')

text \<open>
  What the inner loop leaves in \<^verbatim>\<open>counts\<close>: every key grows by the number of
  atoms of the scanned list that have the key's element, are within the threshold of the
  directional pair (target element, key), provided that pair has a threshold. The scanned
  list is the whole cluster, the target atom included.
\<close>

lemma map_of_count_neighbors:
  "map_of (count_neighbors self a counts others) n =
     map_option (\<lambda>c. c + length (filter (\<lambda>other_atom. element other_atom = n \<and>
          n \<in> set (neighbor_elements self) \<and>
          (case map_of (distance_thresholds self) (element a, n) of None \<Rightarrow> False
           | Some threshold \<Rightarrow> are_connected a other_atom threshold)) others)) (map_of counts n)"
proof (induction others arbitrary: counts)
  case Nil
  show ?case by (simp add: option.map_ident)
next
  case (Cons other_atom rest)
  show ?case
    by (auto simp: Cons.IH map_of_map_entry option.map_comp comp_def split: option.splits)
qed

lemma count_of_target_atom:
  "n \<in> set (neighbor_elements self) \<Longrightarrow>
   map_of (count_neighbors self a (init_counts [] (neighbor_elements self)) all_atoms) n =
     Some (length (filter (\<lambda>other_atom. element other_atom = n \<and>
          (case map_of (distance_thresholds self) (element a, n) of None \<Rightarrow> False
           | Some threshold \<Rightarrow> are_connected a other_atom threshold)) all_atoms))"
  by (simp add: map_of_count_neighbors map_of_init_counts cong: conj_cong)

text \<open>
  Claim C4 (the count excludes the target atom itself). The code scans
  \<^verbatim>\<open>core_atoms + shell_atoms\<close>, which contains the target atom, and the variable
  it calls \<^verbatim>\<open>other_atom\<close> is never compared with \<^verbatim>\<open>atom\<close>. With the
  target element among the neighbor elements and a threshold for the pair (Pb, Pb), a
  cluster of one single lead atom gets the coordination number 1 for (Pb, Pb): the atom
  counts itself at distance 0. The claim says 0.
\<close>

theorem coordination_counts_target_itself:
  "calculate_coordination_numbers
     \<lparr>target_elements = [''Pb''], neighbor_elements = [''Pb''],
      distance_thresholds = [((''Pb'', ''Pb''), 7 / 2)],
      charges = [(''Pb'', (2, 6))], volume_method = ''ionic_radius'', radius_lookup = None\<rparr>
     \<lparr>core_atoms = [\<lparr>element = ''Pb'', coordinates = (0, 0, 0)\<rparr>], shell_atoms = []\<rparr>
     [\<lparr>element = ''Pb'', coordinates = (0, 0, 0)\<rparr>]
   = [((''Pb'', ''Pb''), (1, 0))]"
  by (simp add: calculate_coordination_numbers_def are_connected_def vec_norm_def vec_sub_def
      np_mean_def np_std_def)

lemma bump_weighted_sum:
  "(\<Sum>(k, c)\<leftarrow>AList.update k0 (Suc (case map_of d k0 of None \<Rightarrow> 0 | Some c \<Rightarrow> c)) d.
      real c * f k) =
   (\<Sum>(k, c)\<leftarrow>d. real c * f k) + f k0"
  by (induction d) (auto simp: algebra_simps)

lemma count_elements_weighted_sum:
  "(\<Sum>(k, c)\<leftarrow>count_elements tbl ec as. real c * f k) =
   (\<Sum>(k, c)\<leftarrow>ec. real c * f k) + (\<Sum>a\<leftarrow>as. f (volume_key tbl a))"
  by (induction as arbitrary: ec) (simp_all add: bump_weighted_sum)

lemma count_elements_keys:
  "set (map fst (count_elements tbl ec as)) = set (map fst ec) \<union> volume_key tbl ` set as"
  by (induction as arbitrary: ec) (auto simp: update_keys simp del: set_map)

lemma sum_volumes_eq:
  "sum_volumes rl (t, out) ec =
     (t + (\<Sum>(k, c)\<leftarrow>ec. real c * atom_volume rl k),
      out @ concat (map (\<lambda>(k, c). group_warning rl k) ec))"
  by (induction ec arbitrary: t out)
     (auto simp: atom_volume_def group_warning_def split: option.splits)

text \<open>
  Claim C3, as the code has it. With the lookup built, the ionic-radius volume raises no
  error. The returned total is the sum, over the atoms of core and shell, of the lookup
  volume of the atom's (element, charge) group; an atom whose group has no lookup entry, or
  an entry whose volume is absent, adds nothing, and the group is named in a printed
  warning.
\<close>

theorem ionic_volume_skips_missing_groups:
  assumes "radius_lookup self = Some rl"
  shows "\<exists>out. estimate_total_molecular_volume self h =
            Inr ((\<Sum>a\<leftarrow>core_atoms h @ shell_atoms h.
                    atom_volume rl (volume_key (charges self) a)), out)
          \<and> set out = (\<Union>a\<in>set (core_atoms h @ shell_atoms h).
                          set (group_warning rl (volume_key (charges self) a)))"
proof -
  let ?as = "core_atoms h @ shell_atoms h"
  let ?ec = "count_elements (charges self) [] ?as"
  have "(\<Union>p\<in>set ?ec. set (case p of (k, c) \<Rightarrow> group_warning rl k)) =
        (\<Union>k\<in>fst ` set ?ec. set (group_warning rl k))"
    by force
  also have "\<dots> = (\<Union>a\<in>set ?as. set (group_warning rl (volume_key (charges self) a)))"
    using count_elements_keys [of "charges self" "[]" ?as] by simp
  finally show ?thesis
    using assms
    by (simp add: estimate_total_molecular_volume_def sum_volumes_eq
        count_elements_weighted_sum del: set_append)
qed

text \<open>
  On the example cluster the lead atom has a volume, the iodine group has no entry and the
  sulfur group has an entry without a volume: the total is the lead volume alone.
\<close>

theorem ionic_volume_skips_missing_groups_witness:
  "radius_lookup example_analyzer = Some [((''Pb'', 2), (Some 1, Some 4)), ((''S'', - 2), (None, None))]
   \<and> (\<exists>out. estimate_total_molecular_volume example_analyzer example_cluster = Inr (4, out)
          \<and> set out = {NoRadiusInLookup ''I'' (- 1), VolumeIsNone ''S'' (- 2)})"
proof -
  have rl: "radius_lookup example_analyzer =
      Some [((''Pb'', 2), (Some 1, Some 4)), ((''S'', - 2), (None, None))]"
    by (simp add: example_analyzer_def)
  show ?thesis
    using ionic_volume_skips_missing_groups [OF rl, of example_cluster]
    by (auto simp: example_analyzer_def example_cluster_def atom_volume_def group_warning_def
        volume_key_def charges_get_def)
qed

text \<open>
  Claim C3 as stated fails: a cluster with an iodine atom whose group has no lookup entry,
  and one with a sulfur atom whose entry has no volume, both get a total (the volume of the
  lead atom) and no error.
\<close>

theorem ionic_volume_missing_group_counterexample:
  "estimate_total_molecular_volume
     \<lparr>target_elements = [''Pb''], neighbor_elements = [''I''], distance_thresholds = [],
      charges = [(''Pb'', (2, 6)), (''I'', (- 1, 6)), (''S'', (- 2, 6))],
      volume_method = ''ionic_radius'',
      radius_lookup = Some [((''Pb'', 2), (Some 1, Some 4)), ((''S'', - 2), (None, None))]\<rparr>
     \<lparr>core_atoms = [\<lparr>element = ''Pb'', coordinates = (0, 0, 0)\<rparr>],
      shell_atoms = [\<lparr>element = ''I'', coordinates = (0, 0, 3)\<rparr>]\<rparr>
   = Inr (4, [NoRadiusInLookup ''I'' (- 1)])
   \<and>
   estimate_total_molecular_volume
     \<lparr>target_elements = [''Pb''], neighbor_elements = [''I''], distance_thresholds = [],
      charges = [(''Pb'', (2, 6)), (''I'', (- 1, 6)), (''S'', (- 2, 6))],
      volume_method = ''ionic_radius'',
      radius_lookup = Some [((''Pb'', 2), (Some 1, Some 4)), ((''S'', - 2), (None, None))]\<rparr>
     \<lparr>core_atoms = [\<lparr>element = ''Pb'', coordinates = (0, 0, 0)\<rparr>],
      shell_atoms = [\<lparr>element = ''S'', coordinates = (0, 0, 3)\<rparr>]\<rparr>
   = Inr (4, [VolumeIsNone ''S'' (- 2)])"
  by (simp add: estimate_total_molecular_volume_def volume_key_def charges_get_def)

lemma lookup_entry_wf:
  "lookup_entry elem c roman = Inr ((r, v), radii) \<Longrightarrow> v = map_option sphere_volume r"
  by (auto simp: lookup_entry_def Let_def split: option.splits if_splits)

lemma set_alist_update_subset:
  "set (AList.update k v al) \<subseteq> insert (k, v) (set al)"
  by (induction al) auto

lemma build_loop_Cons_cases:
  assumes "build_loop db (rl, radii) ((e, (c, n)) # rest) = Inr res"
  obtains (skip) "to_roman n = None \<or> (e, c) \<in> fst ` set rl" "build_loop db (rl, radii) rest = Inr res"
  | (store) roman elem entry rs where "to_roman n = Some roman" "(e, c) \<notin> fst ` set rl"
      "db e = Inr elem" "lookup_entry elem c roman = Inr (entry, rs)"
      "build_loop db (AList.update (e, c) entry rl, radii @ rs) rest = Inr res"
  using assms by (auto split: option.splits if_splits sum.splits prod.splits)

lemma build_loop_invariant:
  assumes "build_loop db (rl, radii) tbl = Inr (rl', radii')"
    and "P rl"
    and step: "\<And>rl e c roman elem entry rs. P rl \<Longrightarrow> (e, c) \<notin> fst ` set rl \<Longrightarrow>
        lookup_entry elem c roman = Inr (entry, rs) \<Longrightarrow> P (AList.update (e, c) entry rl)"
  shows "P rl'"
  using assms(1,2)
proof (induction tbl arbitrary: rl radii)
  case Nil
  then show ?case by simp
next
  case (Cons x rest)
  obtain e c n where x: "x = (e, (c, n))" by (cases x) auto
  from Cons.prems(1) [unfolded x] show ?case
  proof (cases rule: build_loop_Cons_cases)
    case skip
    then show ?thesis using Cons.IH Cons.prems(2) by blast
  next
    case (store roman elem entry rs)
    then show ?thesis using Cons.IH step [OF Cons.prems(2)] by blast
  qed
qed

lemma build_loop_distinct:
  assumes "build_loop db (rl, radii) tbl = Inr (rl', radii')" and "distinct (map fst rl)"
  shows "distinct (map fst rl')"
  using assms by (rule build_loop_invariant) (simp add: distinct_update)

lemma build_loop_wf:
  assumes "build_loop db (rl, radii) tbl = Inr (rl', radii')"
    and "\<forall>(k, (r, v)) \<in> set rl. v = map_option sphere_volume r"
  shows "\<forall>(k, (r, v)) \<in> set rl'. v = map_option sphere_volume r"
  using assms
proof (rule build_loop_invariant)
  fix rl :: radius_table and e c roman elem entry rs
  assume a: "\<forall>(k, (r, v)) \<in> set rl. v = map_option sphere_volume r"
    and l: "lookup_entry elem c roman = Inr (entry, rs)"
  obtain r v where entry: "entry = (r, v)" by (cases entry)
  have "v = map_option sphere_volume r" using l lookup_entry_wf unfolding entry by blast
  then show "\<forall>(k, (r, v)) \<in> set (AList.update (e, c) entry rl). v = map_option sphere_volume r"
    using a set_alist_update_subset [of "(e, c)" entry rl] unfolding entry by auto
qed

lemma build_loop_keeps:
  assumes "build_loop db (rl, radii) tbl = Inr (rl', radii')"
    and "map_of rl k = Some v"
  shows "map_of rl' k = Some v"
  using assms
proof (induction tbl arbitrary: rl radii)
  case Nil
  then show ?case by simp
next
  case (Cons x rest)
  obtain e c n where x: "x = (e, (c, n))" by (cases x) auto
  from Cons.prems(1) [unfolded x] show ?case
  proof (cases rule: build_loop_Cons_cases)
    case skip
    then show ?thesis using Cons.IH Cons.prems(2) by blast
  next
    case (store roman elem entry rs)
    have "k \<in> fst ` set rl" using Cons.prems(2) by (force dest: map_of_SomeD)
    then have "k \<noteq> (e, c)" using store(2) by blast
    then have "map_of (AList.update (e, c) entry rl) k = Some v"
      using Cons.prems(2) by (simp add: update_conv')
    then show ?thesis using Cons.IH store(5) by blast
  qed
qed

lemma build_loop_no_new_key:
  assumes "build_loop db (rl, radii) tbl = Inr (rl', radii')"
    and "map_of rl (e, c) = None"
    and "\<forall>n. (e, (c, n)) \<in> set tbl \<longrightarrow> to_roman n = None"
  shows "map_of rl' (e, c) = None"
  using assms
proof (induction tbl arbitrary: rl radii)
  case Nil
  then show ?case by simp
next
  case (Cons x rest)
  obtain e' c' n' where x: "x = (e', (c', n'))" by (cases x) auto
  have rest: "\<forall>n. (e, (c, n)) \<in> set rest \<longrightarrow> to_roman n = None" using Cons.prems(3) by simp
  from Cons.prems(1) [unfolded x] show ?case
  proof (cases rule: build_loop_Cons_cases)
    case skip
    then show ?thesis using Cons.IH Cons.prems(2) rest by blast
  next
    case (store roman elem entry rs)
    have "to_roman n' = None" if "(e', c') = (e, c)"
      using that Cons.prems(3) unfolding x by simp
    then have "(e', c') \<noteq> (e, c)" using store(1) by auto
    then have "map_of (AList.update (e', c') entry rl) (e, c) = None"
      using Cons.prems(2) by (auto simp: update_conv')
    then show ?thesis using Cons.IH store(5) rest by blast
  qed
qed

lemma build_loop_entry:
  assumes "build_loop db (rl, radii) tbl = Inr (rl', radii')"
    and "distinct (map fst tbl)"
    and "\<forall>k \<in> fst ` set rl. fst k \<notin> fst ` set tbl"
    and "(e, (c, n)) \<in> set tbl"
    and "to_roman n = Some roman"
  shows "\<exists>elem entry rs. db e = Inr elem \<and> lookup_entry elem c roman = Inr (entry, rs) \<and>
           map_of rl' (e, c) = Some entry"
  using assms(1,2,3,4)
proof (induction tbl arbitrary: rl radii)
  case Nil
  then show ?case by simp
next
  case (Cons x rest)
  obtain e' c' n' where x: "x = (e', (c', n'))" by (cases x) auto
  have d: "distinct (map fst rest)" and e'_fresh: "e' \<notin> fst ` set rest"
    using Cons.prems(2) unfolding x by auto
  have not_in: "(e', c') \<notin> fst ` set rl" using Cons.prems(3) unfolding x by force
  show ?case
  proof (cases "(e, (c, n)) = x")
    case True
    then have eq: "e' = e" "c' = c" "n' = n" unfolding x by auto
    from Cons.prems(1) [unfolded x] show ?thesis
    proof (cases rule: build_loop_Cons_cases)
      case skip
      then show ?thesis using assms(5) not_in eq by simp
    next
      case (store roman' elem entry rs)
      have "map_of (AList.update (e, c) entry rl) (e, c) = Some entry" by (simp add: update_conv')
      then have "map_of rl' (e, c) = Some entry"
        using build_loop_keeps store(5) unfolding eq by blast
      then show ?thesis using store(1,3,4) assms(5) unfolding eq by auto
    qed
  next
    case False
    then have mem: "(e, (c, n)) \<in> set rest" using Cons.prems(4) by auto
    from Cons.prems(1) [unfolded x] show ?thesis
    proof (cases rule: build_loop_Cons_cases)
      case skip
      have "\<forall>k \<in> fst ` set rl. fst k \<notin> fst ` set rest" using Cons.prems(3) by auto
      then show ?thesis using Cons.IH [OF skip(2) d _ mem] by blast
    next
      case (store roman' elem entry rs)
      have "\<forall>k \<in> fst ` set (AList.update (e', c') entry rl). fst k \<notin> fst ` set rest"
      proof
        fix k assume "k \<in> fst ` set (AList.update (e', c') entry rl)"
        then have "k = (e', c') \<or> k \<in> fst ` set rl"
          using set_alist_update_subset [of "(e', c')" entry rl] by auto
        then show "fst k \<notin> fst ` set rest"
        proof
          assume "k = (e', c')"
          then show ?thesis using e'_fresh by simp
        next
          assume "k \<in> fst ` set rl"
          then have "fst k \<notin> fst ` set (x # rest)" using Cons.prems(3) by blast
          then show ?thesis by simp
        qed
      qed
      then show ?thesis using Cons.IH [OF store(5) d _ mem] by blast
    qed
  qed
qed

lemma lookup_entry_covalent_missing:
  "find (\<lambda>ir. ir_charge ir = c \<and> ir_coordination ir = roman) (ionic_radii elem) = None \<Longrightarrow>
   covalent_radius elem = None \<Longrightarrow> \<exists>msg. lookup_entry elem c roman = Inl (TypeError msg)"
  by (simp add: lookup_entry_def)

text \<open>
  Claim C5, as the code has it. Whenever the builder returns a lookup for a formal charge
  table (a dictionary: one row per element), the lookup has at most one entry per
  (element, charge) key; every entry stores the sphere volume of its stored radius, and no
  volume when it stores no radius; an element whose coordination number has no Roman
  numeral (outside 1..15) gets no entry; any other element gets the entry of the first
  tabulated ionic radius that matches charge and coordination label exactly, divided by
  100, or else of its covalent radius divided by 100 when that is not zero, or else, the
  covalent radius being zero, the entry whose radius and volume are both absent.
\<close>

theorem radius_lookup_builder_entries:
  assumes "build_ionic_radius_lookup db self = Inr (rl, radii)"
    and "distinct (map fst (charges self))"
  shows "distinct (map fst rl)
    \<and> (\<forall>(key, (r, v)) \<in> set rl. v = map_option sphere_volume r)
    \<and> (\<forall>(e, (c, n)) \<in> set (charges self).
         case to_roman n of
           None \<Rightarrow> map_of rl (e, c) = None
         | Some roman \<Rightarrow>
             (\<exists>elem. db e = Inr elem \<and>
               (case find (\<lambda>ir. ir_charge ir = c \<and> ir_coordination ir = roman)
                       (ionic_radii elem) of
                  Some m \<Rightarrow>
                    map_of rl (e, c) =
                      Some (Some (ir_ionic_radius m / 100),
                            Some (sphere_volume (ir_ionic_radius m / 100)))
                | None \<Rightarrow>
                    (\<exists>cr. covalent_radius elem = Some cr \<and>
                       map_of rl (e, c) =
                         Some (if cr \<noteq> 0
                               then (Some (cr / 100), Some (sphere_volume (cr / 100)))
                               else (None, None))))))"
proof (intro conjI)
  have b: "build_loop db ([], []) (charges self) = Inr (rl, radii)"
    using assms(1) by (simp add: build_ionic_radius_lookup_def)
  show "distinct (map fst rl)"
    using build_loop_distinct [OF b] by simp
  show "\<forall>(key, (r, v)) \<in> set rl. v = map_option sphere_volume r"
    using build_loop_wf [OF b] by simp
  show "\<forall>(e, (c, n)) \<in> set (charges self).
         case to_roman n of
           None \<Rightarrow> map_of rl (e, c) = None
         | Some roman \<Rightarrow>
             (\<exists>elem. db e = Inr elem \<and>
               (case find (\<lambda>ir. ir_charge ir = c \<and> ir_coordination ir = roman)
                       (ionic_radii elem) of
                  Some m \<Rightarrow>
                    map_of rl (e, c) =
                      Some (Some (ir_ionic_radius m / 100),
                            Some (sphere_volume (ir_ionic_radius m / 100)))
                | None \<Rightarrow>
                    (\<exists>cr. covalent_radius elem = Some cr \<and>
                       map_of rl (e, c) =
                         Some (if cr \<noteq> 0
                               then (Some (cr / 100), Some (sphere_volume (cr / 100)))
                               else (None, None)))))"
  proof (clarify)
    fix e c n
    assume mem: "(e, (c, n)) \<in> set (charges self)"
    show "case to_roman n of
           None \<Rightarrow> map_of rl (e, c) = None
         | Some roman \<Rightarrow>
             (\<exists>elem. db e = Inr elem \<and>
               (case find (\<lambda>ir. ir_charge ir = c \<and> ir_coordination ir = roman)
                       (ionic_radii elem) of
                  Some m \<Rightarrow>
                    map_of rl (e, c) =
                      Some (Some (ir_ionic_radius m / 100),
                            Some (sphere_volume (ir_ionic_radius m / 100)))
                | None \<Rightarrow>
                    (\<exists>cr. covalent_radius elem = Some cr \<and>
                       map_of rl (e, c) =
                         Some (if cr \<noteq> 0
                               then (Some (cr / 100), Some (sphere_volume (cr / 100)))
                               else (None, None)))))"
    proof (cases "to_roman n")
      case None
      have "to_roman n' = None" if "(e, (c, n')) \<in> set (charges self)" for n'
      proof -
        have "map_of (charges self) e = Some (c, n')"
          using map_of_is_SomeI [OF assms(2) that] .
        moreover have "map_of (charges self) e = Some (c, n)"
          using map_of_is_SomeI [OF assms(2) mem] .
        ultimately show ?thesis using None by simp
      qed
      then have "map_of rl (e, c) = None"
        using build_loop_no_new_key [OF b, of e c] by simp
      then show ?thesis using None by simp
    next
      case (Some roman)
      obtain elem entry rs where el: "db e = Inr elem"
        and le: "lookup_entry elem c roman = Inr (entry, rs)"
        and mo: "map_of rl (e, c) = Some entry"
        using build_loop_entry [OF b assms(2) _ mem Some] by auto
      show ?thesis
        using el le mo Some
        by (auto simp: lookup_entry_def Let_def split: option.splits if_splits)
    qed
  qed
qed

text \<open>
  On the example table: lead and iodine have an exact match, sulfur with coordination 4 has
  none and takes its covalent radius, and the element with covalent radius 0 gets the entry
  without radius and volume.
\<close>

theorem radius_lookup_builder_entries_witness:
  "build_ionic_radius_lookup example_db example_analyzer =
     Inr ([((''Pb'', 2), (Some (119 / 100), Some (sphere_volume (119 / 100)))),
           ((''I'', - 1), (Some (11 / 5), Some (sphere_volume (11 / 5)))),
           ((''S'', - 2), (Some (103 / 100), Some (sphere_volume (103 / 100)))),
           ((''Q'', 1), (None, None))],
          [Some (119 / 100), Some (11 / 5), None])
   \<and> distinct (map fst (charges example_analyzer))
   \<and> (\<exists>rl radii. build_ionic_radius_lookup example_db example_analyzer = Inr (rl, radii)
        \<and> distinct (map fst rl)
        \<and> map_of rl (''S'', - 2) = Some (Some (103 / 100), Some (sphere_volume (103 / 100)))
        \<and> map_of rl (''Q'', 1) = Some (None, None))"
proof -
  let ?rl = "[((''Pb'', 2), (Some (119 / 100), Some (sphere_volume (119 / 100)))),
           ((''I'', - 1), (Some (11 / 5), Some (sphere_volume (11 / 5)))),
           ((''S'', - 2), (Some (103 / 100), Some (sphere_volume (103 / 100)))),
           ((''Q'', 1), (None, None))] :: radius_table"
  have b: "build_ionic_radius_lookup example_db example_analyzer =
     Inr (?rl, [Some (119 / 100), Some (11 / 5), None])"
    by (simp add: build_ionic_radius_lookup_def example_analyzer_def example_db_def
        to_roman_def lookup_entry_def Let_def)
  have d: "distinct (map fst (charges example_analyzer))"
    by (simp add: example_analyzer_def)
  have dr: "distinct (map fst ?rl)"
    by (rule radius_lookup_builder_entries [OF b d, THEN conjunct1])
  have "\<exists>rl radii. build_ionic_radius_lookup example_db example_analyzer = Inr (rl, radii)
        \<and> distinct (map fst rl)
        \<and> map_of rl (''S'', - 2) = Some (Some (103 / 100), Some (sphere_volume (103 / 100)))
        \<and> map_of rl (''Q'', 1) = Some (None, None)"
    apply (rule exI [of _ ?rl])
    apply (rule exI [of _ "[Some (119 / 100), Some (11 / 5), None] :: real option list"])
    apply (intro conjI)
       apply (rule b)
      apply (rule dr)
     apply simp
    apply simp
    done
  with b d show ?thesis by (intro conjI)
qed

text \<open>
  Claim C5 as stated fails: lead has a covalent radius and no ionic radius for charge 2
  with coordination 16, yet the builder stores no entry for it at all, since 16 has no
  Roman numeral in its table.
\<close>

theorem radius_lookup_builder_counterexample:
  "build_ionic_radius_lookup example_db
     \<lparr>target_elements = [''Pb''], neighbor_elements = [''I''], distance_thresholds = [],
      charges = [(''Pb'', (2, 16))], volume_method = ''ionic_radius'',
      radius_lookup = None\<rparr> = Inr ([], [])"
  by (simp add: build_ionic_radius_lookup_def to_roman_def)

lemma run_files_cluster_data:
  "cluster_data (run_files ext self shape_type files st) =
     cluster_data st @ concat (map (file_records ext self shape_type) files)"
  by (induction files arbitrary: st)
     (auto simp: process_pdb_file_def collect_result_def file_records_def
           split: sum.splits option.splits prod.splits)

lemma run_files_stdout:
  "stdout (run_files ext self shape_type files st) =
     stdout st @ concat (map (file_output ext self shape_type) files)"
  by (induction files arbitrary: st)
     (auto simp: process_pdb_file_def collect_result_def file_output_def
           split: sum.splits option.splits prod.splits)

lemma run_files_no_target_count:
  "no_target_atoms_count (run_files ext self shape_type files st) =
     no_target_atoms_count st
       + length (filter (\<lambda>f. file_records ext self shape_type f = []) files)"
  by (induction files arbitrary: st)
     (auto simp: process_pdb_file_def collect_result_def file_records_def
           split: sum.splits option.splits prod.splits)

lemma run_files_all_cluster_sizes:
  "all_cluster_sizes (run_files ext self shape_type files st) =
     all_cluster_sizes st
       @ map cluster_size (concat (map (file_records ext self shape_type) files))"
  by (induction files arbitrary: st)
     (auto simp: process_pdb_file_def collect_result_def file_records_def
           split: sum.splits option.splits prod.splits)

lemma run_files_stats_per_size:
  "coordination_stats_per_size (run_files ext self shape_type files st) =
     foldl (\<lambda>m r. collect_stats r m) (coordination_stats_per_size st)
       (concat (map (file_records ext self shape_type) files))"
  by (induction files arbitrary: st)
     (auto simp: process_pdb_file_def collect_result_def file_records_def
           split: sum.splits option.splits prod.splits)

lemma run_batch_cluster_data:
  "cluster_data (run_batch ext self shape_type files st) =
     cluster_data st @ concat (map (file_records ext self shape_type) files)"
  by (simp add: run_batch_def generate_statistics_def Let_def run_files_cluster_data)

lemma run_batch_distribution:
  "cluster_size_distribution (run_batch ext self shape_type files st) =
     bucket_volumes [] (cluster_data st @ concat (map (file_records ext self shape_type) files))"
  by (simp add: run_batch_def generate_statistics_def Let_def run_files_cluster_data)

lemma run_batch_averages:
  "average_volumes_per_size (run_batch ext self shape_type files st) =
     map (\<lambda>(sz, volumes). (sz, np_mean volumes))
       (bucket_volumes [] (cluster_data st @ concat (map (file_records ext self shape_type) files)))"
  by (simp add: run_batch_def generate_statistics_def Let_def run_files_cluster_data)

lemma run_batch_no_target_count:
  "no_target_atoms_count (run_batch ext self shape_type files st) =
     length (filter (\<lambda>f. file_records ext self shape_type f = []) files)"
  by (simp add: run_batch_def generate_statistics_def Let_def run_files_no_target_count)

lemma run_batch_stdout:
  "stdout (run_batch ext self shape_type files st) =
     stdout st @ concat (map (file_output ext self shape_type) files) @
       [NoTargetCount (length (filter (\<lambda>f. file_records ext self shape_type f = []) files))]"
  by (simp add: run_batch_def generate_statistics_def Let_def run_files_stdout
      run_files_no_target_count)

lemma run_batch_all_cluster_sizes:
  "all_cluster_sizes (run_batch ext self shape_type files st) =
     map cluster_size (concat (map (file_records ext self shape_type) files))"
  by (simp add: run_batch_def generate_statistics_def Let_def run_files_all_cluster_sizes)

lemma run_batch_stats_per_size:
  "coordination_stats_per_size (run_batch ext self shape_type files st) =
     foldl (\<lambda>m r. collect_stats r m) []
       (concat (map (file_records ext self shape_type) files))"
  by (simp add: run_batch_def generate_statistics_def Let_def run_files_stats_per_size)

lemma bucket_append_to_bucket:
  "bucket (append_to_bucket k v d) s = (if s = k then bucket d k @ [v] else bucket d s)"
  by (simp add: bucket_def append_to_bucket_def update_conv')

lemma bucket_bucket_volumes:
  "bucket (bucket_volumes d rs) s = bucket d s @ map volume (filter (\<lambda>r. cluster_size r = s) rs)"
  by (induction rs arbitrary: d) (auto simp: bucket_append_to_bucket)

lemma keys_bucket_volumes:
  "set (map fst (bucket_volumes d rs)) = set (map fst d) \<union> cluster_size ` set rs"
  by (induction rs arbitrary: d) (auto simp: append_to_bucket_def update_keys simp del: set_map)

lemma distinct_bucket_volumes:
  "distinct (map fst d) \<Longrightarrow> distinct (map fst (bucket_volumes d rs))"
  by (induction rs arbitrary: d) (simp_all add: append_to_bucket_def distinct_update)

lemma bucket_of_member:
  "distinct (map fst d) \<Longrightarrow> (s, vs) \<in> set d \<Longrightarrow> bucket d s = vs"
  by (simp add: bucket_def)

lemma buckets_nonempty:
  assumes "(s, vs) \<in> set (bucket_volumes [] rs)"
  shows "vs \<noteq> []"
proof -
  have d: "distinct (map fst (bucket_volumes [] rs))" by (simp add: distinct_bucket_volumes)
  have "s \<in> set (map fst (bucket_volumes [] rs))" using assms by force
  then have "s \<in> cluster_size ` set rs" by (simp add: keys_bucket_volumes del: set_map)
  then have "filter (\<lambda>r. cluster_size r = s) rs \<noteq> []" by (auto simp: filter_empty_conv)
  moreover have "vs = map volume (filter (\<lambda>r. cluster_size r = s) rs)"
    using bucket_of_member [OF d assms] bucket_bucket_volumes [of "[]" rs s]
    by (simp add: bucket_def)
  ultimately show ?thesis by simp
qed

lemma add_cluster_volumes_sum:
  "add_cluster_volumes acc d = acc + (\<Sum>(s, vs)\<leftarrow>d. np_mean vs * real (length vs))"
  by (induction d arbitrary: acc) auto

lemma sum_over_sizes:
  assumes "distinct (map fst d)"
  shows "(\<Sum>(s, vs)\<leftarrow>d. g vs) = (\<Sum>s\<leftarrow>map fst d. g (bucket d s))"
proof -
  have "map (\<lambda>(s, vs). g vs) d = map (\<lambda>p. g (bucket d (fst p))) d"
    by (rule map_cong) (auto simp: bucket_of_member [OF assms])
  then have "(\<Sum>(s, vs)\<leftarrow>d. g vs) = sum_list (map (\<lambda>p. g (bucket d (fst p))) d)"
    by (rule arg_cong)
  also have "\<dots> = (\<Sum>s\<leftarrow>map fst d. g (bucket d s))"
    by (simp add: comp_def)
  finally show ?thesis .
qed

lemma argmax_from_spec:
  "argmax_from best bi i xs = m \<Longrightarrow>
     (m = bi \<and> (\<forall>x \<in> set xs. x \<le> best))
   \<or> (\<exists>j < length xs. m = i + j \<and> best < xs ! j \<and> (\<forall>x \<in> set xs. x \<le> xs ! j))"
proof (induction xs arbitrary: best bi i)
  case Nil
  then show ?case by simp
next
  case (Cons x xs)
  show ?case
  proof (cases "best < x")
    case True
    then have "argmax_from x i (Suc i) xs = m" using Cons.prems by simp
    from Cons.IH [OF this] show ?thesis
    proof
      assume "m = i \<and> (\<forall>y \<in> set xs. y \<le> x)"
      then show ?thesis using True by (intro disjI2 exI [of _ 0]) auto
    next
      assume "\<exists>j<length xs. m = Suc i + j \<and> x < xs ! j \<and> (\<forall>y \<in> set xs. y \<le> xs ! j)"
      then obtain j where j: "j < length xs" "m = Suc i + j" "x < xs ! j" "\<forall>y \<in> set xs. y \<le> xs ! j"
        by blast
      then show ?thesis using True by (intro disjI2 exI [of _ "Suc j"]) auto
    qed
  next
    case False
    then have "argmax_from best bi (Suc i) xs = m" using Cons.prems by simp
    from Cons.IH [OF this] show ?thesis
    proof
      assume "m = bi \<and> (\<forall>y \<in> set xs. y \<le> best)"
      then show ?thesis using False by auto
    next
      assume "\<exists>j<length xs. m = Suc i + j \<and> best < xs ! j \<and> (\<forall>y \<in> set xs. y \<le> xs ! j)"
      then obtain j where j: "j < length xs" "m = Suc i + j" "best < xs ! j" "\<forall>y \<in> set xs. y \<le> xs ! j"
        by blast
      then show ?thesis using False by (intro disjI2 exI [of _ "Suc j"]) auto
    qed
  qed
qed

lemma np_argmax_spec:
  assumes "np_argmax xs = Inr m"
  shows "m < length xs \<and> (\<forall>x \<in> set xs. x \<le> xs ! m)"
proof (cases xs)
  case Nil
  then show ?thesis using assms by (simp add: np_argmax_def)
next
  case (Cons x rest)
  then have "argmax_from x 0 1 rest = m" using assms by (simp add: np_argmax_def)
  from argmax_from_spec [OF this] show ?thesis
  proof
    assume "m = 0 \<and> (\<forall>y \<in> set rest. y \<le> x)"
    then show ?thesis using Cons by auto
  next
    assume "\<exists>j<length rest. m = 1 + j \<and> x < rest ! j \<and> (\<forall>y \<in> set rest. y \<le> rest ! j)"
    then show ?thesis using Cons by auto
  qed
qed

lemma volume_percentage_mode_spec:
  assumes "volume_percentage_mode d = Inr (Some (ms, mp))"
  shows "ms \<in> set (map fst d) \<and> mp = volume_percentage d ms
       \<and> (\<forall>s \<in> set (map fst d). volume_percentage d s \<le> mp)"
proof -
  let ?sizes = "sorted_sizes d"
  let ?ps = "map (volume_percentage d) ?sizes"
  obtain m where m: "np_argmax ?ps = Inr m" and ms: "ms = ?sizes ! m" and mp: "mp = ?ps ! m"
    using assms by (auto simp: volume_percentage_mode_def Let_def split: if_splits sum.splits)
  have lt: "m < length ?sizes" and mx: "\<forall>x \<in> set ?ps. x \<le> ?ps ! m"
    using np_argmax_spec [OF m] by auto
  have set_sizes: "set ?sizes = set (map fst d)" by (simp add: sorted_sizes_def)
  have "ms \<in> set ?sizes" using lt ms by simp
  moreover have "mp = volume_percentage d ms" using lt ms mp by simp
  moreover have "\<forall>s \<in> set ?sizes. volume_percentage d s \<le> mp"
    using mx mp by auto
  ultimately show ?thesis unfolding set_sizes by blast
qed

lemma volume_percentage_mode_exists:
  assumes "d \<noteq> []" and "total_cluster_volume d \<noteq> 0"
  shows "\<exists>ms mp. volume_percentage_mode d = Inr (Some (ms, mp))"
proof -
  have "length (sorted_sizes d) = length d" by (simp add: sorted_sizes_def)
  then have "sorted_sizes d \<noteq> []" using assms(1) by auto
  then obtain x rest where "map (volume_percentage d) (sorted_sizes d) = x # rest"
    by (cases "sorted_sizes d") auto
  then show ?thesis using assms
    by (simp add: volume_percentage_mode_def Let_def np_argmax_def)
qed

text \<open>
  Claim C8. After \<^verbatim>\<open>generate_statistics\<close> the distribution has one bucket per
  cluster size, holding the volumes of the records of that size in their order; the stored
  average of a size is the mean of its bucket and the reported deviation is the population
  standard deviation of its bucket; when the total cluster volume is not zero the volume
  percentage of a size is its mean volume times its count, divided by the sum of that
  product over all sizes, in percent; a mode that is reported is a size of the
  distribution whose percentage is the greatest; and with at least one record and a total
  that is not zero a mode is reported.
\<close>

theorem statistics_aggregator:
  assumes "d = cluster_size_distribution (generate_statistics st)"
  shows "distinct (map fst d)
    \<and> (\<forall>s. bucket d s = map volume (filter (\<lambda>r. cluster_size r = s) (cluster_data st)))
    \<and> (\<forall>s \<in> set (map fst d).
          map_of (average_volumes_per_size (generate_statistics st)) s = Some (np_mean (bucket d s)))
    \<and> std_devs d = map (\<lambda>s. np_std (bucket d s)) (sorted_sizes d)
    \<and> (total_cluster_volume d \<noteq> 0 \<longrightarrow>
         (\<forall>s \<in> set (map fst d).
            volume_percentage d s =
              (np_mean (bucket d s) * real (length (bucket d s))
                 / (\<Sum>s'\<leftarrow>map fst d. np_mean (bucket d s') * real (length (bucket d s')))) * 100))
    \<and> (\<forall>ms mp. volume_percentage_mode d = Inr (Some (ms, mp)) \<longrightarrow>
          ms \<in> set (map fst d) \<and> mp = volume_percentage d ms
          \<and> (\<forall>s \<in> set (map fst d). volume_percentage d s \<le> mp))
    \<and> (cluster_data st \<noteq> [] \<and> total_cluster_volume d \<noteq> 0 \<longrightarrow>
         (\<exists>ms mp. volume_percentage_mode d = Inr (Some (ms, mp))))"
proof -
  have d: "d = bucket_volumes [] (cluster_data st)"
    using assms by (simp add: generate_statistics_def Let_def)
  have avg: "average_volumes_per_size (generate_statistics st) =
      map (\<lambda>(sz, volumes). (sz, np_mean volumes)) d"
    unfolding d by (simp add: generate_statistics_def Let_def)
  have dist: "distinct (map fst d)"
    unfolding d by (simp add: distinct_bucket_volumes)
  have grp: "bucket d s = map volume (filter (\<lambda>r. cluster_size r = s) (cluster_data st))" for s
    unfolding d using bucket_bucket_volumes [of "[]" "cluster_data st" s] by (simp add: bucket_def)
  have key: "map_of d s = Some (bucket d s)" if mem: "s \<in> set (map fst d)" for s
  proof -
    obtain vs where "(s, vs) \<in> set d" using mem by fastforce
    then show ?thesis using dist by (simp add: bucket_def)
  qed
  have nonempty: "0 < length (bucket d s)" if mem: "s \<in> set (map fst d)" for s
  proof -
    obtain vs where vs: "(s, vs) \<in> set d" using mem by fastforce
    then have "vs \<noteq> []" using buckets_nonempty unfolding d by blast
    moreover have "bucket d s = vs" using bucket_of_member [OF dist vs] .
    ultimately show ?thesis by simp
  qed
  have total: "total_cluster_volume d =
      (\<Sum>s'\<leftarrow>map fst d. np_mean (bucket d s') * real (length (bucket d s')))"
    using sum_over_sizes [OF dist, of "\<lambda>vs. np_mean vs * real (length vs)"]
    by (simp add: total_cluster_volume_def add_cluster_volumes_sum)
  have c3: "\<forall>s \<in> set (map fst d).
      map_of (average_volumes_per_size (generate_statistics st)) s = Some (np_mean (bucket d s))"
    using key by (simp add: avg map_of_map)
  have c5: "total_cluster_volume d \<noteq> 0 \<longrightarrow>
         (\<forall>s \<in> set (map fst d).
            volume_percentage d s =
              (np_mean (bucket d s) * real (length (bucket d s))
                 / (\<Sum>s'\<leftarrow>map fst d. np_mean (bucket d s') * real (length (bucket d s')))) * 100)"
    using nonempty total by (simp add: volume_percentage_def)
  have c6: "\<forall>ms mp. volume_percentage_mode d = Inr (Some (ms, mp)) \<longrightarrow>
          ms \<in> set (map fst d) \<and> mp = volume_percentage d ms
          \<and> (\<forall>s \<in> set (map fst d). volume_percentage d s \<le> mp)"
    using volume_percentage_mode_spec by blast
  have "d \<noteq> []" if ne: "cluster_data st \<noteq> []"
  proof -
    obtain r rs where "cluster_data st = r # rs" using ne by (cases "cluster_data st") auto
    then have "cluster_size r \<in> set (map fst d)"
      unfolding d using keys_bucket_volumes [of "[]" "cluster_data st"] by simp
    then show ?thesis by auto
  qed
  then have c7: "cluster_data st \<noteq> [] \<and> total_cluster_volume d \<noteq> 0 \<longrightarrow>
         (\<exists>ms mp. volume_percentage_mode d = Inr (Some (ms, mp)))"
    using volume_percentage_mode_exists by blast
  show ?thesis
    using dist grp c3 c5 c6 c7 by (simp add: std_devs_def)
qed

text \<open>
  The example of the specification: sizes 2, 2, 3 with volumes 10, 12, 9. Size 2 has mean
  11 and deviation 1; size 3 has the share 9 / 31, and the mode is size 2 with 22 / 31.
\<close>

theorem statistics_aggregator_witness:
  "cluster_size_distribution (generate_statistics (initial_state\<lparr>cluster_data := example_records\<rparr>))
     = [(2, [10, 12]), (3, [9])]
   \<and> map_of (average_volumes_per_size
               (generate_statistics (initial_state\<lparr>cluster_data := example_records\<rparr>))) 2 = Some 11
   \<and> std_devs [(2, [10, 12]), (3, [9])] = [1, 0]
   \<and> volume_percentage [(2, [10, 12]), (3, [9])] 3 = 900 / 31
   \<and> volume_percentage_mode [(2, [10, 12]), (3, [9])] = Inr (Some (2, 2200 / 31))"
proof -
  let ?st = "initial_state\<lparr>cluster_data := example_records\<rparr>"
  let ?d = "[(2, [10, 12]), (3, [9])] :: (nat \<times> real list) list"
  have d: "?d = cluster_size_distribution (generate_statistics ?st)"
    by (simp add: generate_statistics_def initial_state_def example_records_def
        append_to_bucket_def)
  note facts = statistics_aggregator [OF d]
  have b2: "bucket ?d 2 = [10, 12]" and b3: "bucket ?d 3 = [9]"
    by (simp_all add: bucket_def)
  have tot: "total_cluster_volume ?d = 31"
    by (simp add: total_cluster_volume_def np_mean_def)
  have avg: "map_of (average_volumes_per_size (generate_statistics ?st)) 2 = Some 11"
    using facts b2 by (simp add: np_mean_def)
  have std: "std_devs ?d = [1, 0]"
    using facts b2 b3 by (simp add: sorted_sizes_def np_std_def np_mean_def)
  have pct: "volume_percentage ?d 3 = 900 / 31"
    using facts tot b2 b3 by (simp add: np_mean_def)
  have mode: "volume_percentage_mode ?d = Inr (Some (2, 2200 / 31))"
    by (simp add: volume_percentage_mode_def tot sorted_sizes_def volume_percentage_def
        b2 b3 np_mean_def np_argmax_def)
  show ?thesis using d avg std pct mode by simp
qed

text \<open>
  The tetrahedra of a list of fewer than four points, and of a list of four points.
\<close>

lemma sublists_of_length_short:
  "length xs < k \<Longrightarrow> sublists_of_length k xs = []"
  by (induction k xs rule: sublists_of_length.induct) auto


lemma tetrahedra_few: "length ps \<le> 3 \<Longrightarrow> tetrahedra ps = []"
  by (simp add: tetrahedra_def sublists_of_length_short)



lemma coplanar_few: "length ps \<le> 3 \<Longrightarrow> coplanar ps"
  by (simp add: coplanar_def tetrahedra_few)





lemma unit_tetrahedron_edges:
  "\<forall>p \<in> set (map coordinates (core_atoms unit_tetrahedron @ shell_atoms unit_tetrahedron)).
   \<forall>q \<in> set (map coordinates (core_atoms unit_tetrahedron @ shell_atoms unit_tetrahedron)).
     p \<noteq> q \<longrightarrow> vec_norm (vec_sub p q) = 1"
  by (simp add: unit_tetrahedron_def vec_norm_def vec_sub_def power2_eq_square
      field_simps)


lemma coplanar_positions_raise:
  assumes "4 \<le> length (core_atoms h @ shell_atoms h)"
    and "coplanar (map coordinates (core_atoms h @ shell_atoms h))"
    and "hull_contract (map coordinates (core_atoms h @ shell_atoms h))
           (hull_volume ext (map coordinates (core_atoms h @ shell_atoms h)))"
  shows "calculate_cluster_volume ext h = Inl QhullError"
  using assms by (simp add: calculate_cluster_volume_def hull_contract_def)



lemma sqrt5_sq: "sqrt 5 * sqrt 5 = 5" by simp

lemma phi_squared: "phi\<^sup>2 = (3 + sqrt 5) / 2"
  by (simp add: phi_def power2_eq_square field_simps)

lemma phi_pos: "0 < phi"
  by (simp add: phi_def add_pos_pos)

lemma inverse_phi: "1 / phi = (sqrt 5 - 1) / 2"
proof -
  have "phi * ((sqrt 5 - 1) / 2) = 1"
    by (simp add: phi_def field_simps)
  then show ?thesis using phi_pos by (simp add: field_simps)
qed

lemma inverse_phi_squared: "(1 / phi)\<^sup>2 = (3 - sqrt 5) / 2"
  unfolding inverse_phi by (simp add: power2_eq_square field_simps)

lemma golden_norm: "(1 / phi)\<^sup>2 + phi\<^sup>2 = 3"
proof -
  have "(1 / phi)\<^sup>2 + phi\<^sup>2 = (3 - sqrt 5) / 2 + (3 + sqrt 5) / 2"
    by (simp only: inverse_phi_squared phi_squared)
  also have "\<dots> = 3" by argo
  finally show ?thesis .
qed

lemma rows_sq_norm:
  "\<forall>v \<in> set dodecahedron_rows. (case v of (x, y, z) \<Rightarrow> x\<^sup>2 + y\<^sup>2 + z\<^sup>2) = 3"
  using golden_norm
  by (simp add: dodecahedron_rows_def add.commute)


lemma first_row_norm: "vec_norm (dodecahedron_rows ! 0) = sqrt 3"
  by (simp add: dodecahedron_rows_def vec_norm_def)

lemma rows_norm: "\<forall>v \<in> set dodecahedron_rows. vec_norm v = sqrt 3"
proof
  fix v assume "v \<in> set dodecahedron_rows"
  then have "(case v of (x, y, z) \<Rightarrow> x\<^sup>2 + y\<^sup>2 + z\<^sup>2) = 3"
    using rows_sq_norm by blast
  then show "vec_norm v = sqrt 3"
    by (cases v) (simp add: vec_norm_def)
qed

lemma vec_norm_vec_div:
  "0 < s \<Longrightarrow> vec_norm (vec_div v s) = vec_norm v / s"
proof -
  assume s: "0 < s"
  obtain x y z where v: "v = (x, y, z)" by (cases v) auto
  have "(x / s)\<^sup>2 + (y / s)\<^sup>2 + (z / s)\<^sup>2 = (x\<^sup>2 + y\<^sup>2 + z\<^sup>2) / s\<^sup>2"
    by (simp add: power_divide add_divide_distrib)
  then show ?thesis using s
    by (simp add: v vec_norm_def vec_div_def real_sqrt_divide)
qed

lemma vertices_unit:
  "\<forall>v \<in> set generate_dodecahedron_vertices. vec_norm v = 1"
  using rows_norm
  by (auto simp: generate_dodecahedron_vertices_def first_row_norm vec_norm_vec_div)

lemma surface_point_distance:
  "vec_norm (vec_sub (vec_add position (vec_scale radius v)) position) = \<bar>radius\<bar> * vec_norm v"
proof -
  obtain x y z where v: "v = (x, y, z)" by (cases v) auto
  obtain px py pz where p: "position = (px, py, pz)" by (cases position) auto
  have "(radius * x)\<^sup>2 + (radius * y)\<^sup>2 + (radius * z)\<^sup>2 = radius\<^sup>2 * (x\<^sup>2 + y\<^sup>2 + z\<^sup>2)"
    by (simp add: power_mult_distrib distrib_left)
  then show ?thesis
    by (simp add: v p vec_norm_def vec_sub_def vec_add_def vec_scale_def real_sqrt_mult)
qed

text \<open>
  Claim C10. The generator returns 20 rows; all twenty rows of the array literal have the
  norm \<open>sqrt 3\<close>, so that after the division by the norm of the first row every row
  has the norm 1; and every surface point that the outward-facing-point generator returns
  for an atom with a radius that is not negative lies at the distance of that radius from
  the atom's position.
\<close>

theorem dodecahedron_unit_vertices:
  "length generate_dodecahedron_vertices = 20
   \<and> (\<forall>v \<in> set dodecahedron_rows. vec_norm v = sqrt 3)
   \<and> (\<forall>i < 20. vec_norm (generate_dodecahedron_vertices ! i) = 1)
   \<and> (0 \<le> radius \<longrightarrow>
        generate_outward_facing_points position radius geometric_center = Inr points \<longrightarrow>
        (\<forall>p \<in> set points. vec_norm (vec_sub p position) = radius))"
proof (intro conjI impI allI)
  show len: "length generate_dodecahedron_vertices = 20"
    by (simp add: generate_dodecahedron_vertices_def dodecahedron_rows_def)
  show "\<forall>v \<in> set dodecahedron_rows. vec_norm v = sqrt 3" by (rule rows_norm)
  show "vec_norm (generate_dodecahedron_vertices ! i) = 1" if "i < 20" for i
    using that len vertices_unit by (metis nth_mem)
  show "\<forall>p \<in> set points. vec_norm (vec_sub p position) = radius"
    if r: "0 \<le> radius"
      and g: "generate_outward_facing_points position radius geometric_center = Inr points"
  proof
    fix p assume "p \<in> set points"
    then obtain v where "v \<in> set generate_dodecahedron_vertices"
      and "p = vec_add position (vec_scale radius v)"
      using g by (auto simp: generate_outward_facing_points_def Let_def split: if_splits)
    then show "vec_norm (vec_sub p position) = radius"
      using r vertices_unit by (simp add: surface_point_distance)
  qed
qed

text \<open>
  Row 8 is one of the golden-ratio rows; for an atom at (1, 0, 0) with radius 2 around the
  centre (0, 0, 0) the generator returns surface points, at distance 2.
\<close>

theorem dodecahedron_unit_vertices_witness:
  "(8::nat) < 20 \<and> vec_norm (generate_dodecahedron_vertices ! 8) = 1 \<and> (0::real) \<le> 2
   \<and> (\<exists>points. generate_outward_facing_points (1, 0, 0) 2 (0, 0, 0) = Inr points
         \<and> points \<noteq> [] \<and> vec_norm (vec_sub (hd points) (1, 0, 0)) = 2)"
proof -
  have mem: "vec_div (1, 1, 1) (sqrt 3) \<in> set generate_dodecahedron_vertices"
    by (simp add: generate_dodecahedron_vertices_def first_row_norm)
       (simp add: dodecahedron_rows_def)
  have "vec_dot (vec_div (1, 1, 1) (sqrt 3)) (vec_div (vec_sub (1, 0, 0) (0, 0, 0))
          (vec_norm (vec_sub (1, 0, 0) (0, 0, 0)))) > 0"
    by (simp add: vec_dot_def vec_div_def vec_sub_def vec_norm_def)
  with mem have "filter (\<lambda>vertex. vec_dot vertex (vec_div (vec_sub (1, 0, 0) (0, 0, 0))
          (vec_norm (vec_sub (1, 0, 0) (0, 0, 0)))) > 0) generate_dodecahedron_vertices \<noteq> []"
    by (auto simp: filter_empty_conv)
  then obtain points where pts: "generate_outward_facing_points (1, 0, 0) 2 (0, 0, 0) = Inr points"
    and ne: "points \<noteq> []"
    by (auto simp: generate_outward_facing_points_def Let_def vec_norm_def vec_sub_def)
  have r: "(0::real) \<le> 2" by simp
  note T = dodecahedron_unit_vertices [of 2 "(1, 0, 0)" "(0, 0, 0)" points]
  have "\<forall>p \<in> set points. vec_norm (vec_sub p (1, 0, 0)) = 2"
    using T r pts by blast
  then have "vec_norm (vec_sub (hd points) (1, 0, 0)) = 2" using ne by simp
  moreover have "vec_norm (generate_dodecahedron_vertices ! 8) = 1" using T by simp
  ultimately show ?thesis using pts ne by auto
qed

text \<open>
  The record of a file under the ionic-radius method, and the records of the example
  files.
\<close>

lemma ionic_file_records:
  assumes "volume_method self = ''ionic_radius''"
    and "load_structure ext file = Inr h"
    and "filter (\<lambda>a. element a \<in> set (target_elements self)) (core_atoms h) \<noteq> []"
    and "estimate_total_molecular_volume self h = Inr (v, out)"
  shows "\<exists>r. file_records ext self shape_type file = [r] \<and> pdb_file r = file
          \<and> cluster_size r =
              length (filter (\<lambda>a. element a \<in> set (target_elements self)) (core_atoms h))
          \<and> volume r = v"
  using assms
  by (simp add: file_records_def process_body_def dispatch_volume_def Let_def)

lemma example_volume_a:
  "\<exists>out. estimate_total_molecular_volume example_analyzer example_cluster = Inr (4, out)"
  by (simp add: estimate_total_molecular_volume_def example_analyzer_def example_cluster_def
      atom_volume_def group_warning_def volume_key_def charges_get_def AList.update.simps
      split: prod.splits)

lemma example_volume_c:
  "\<exists>out. estimate_total_molecular_volume example_analyzer
      \<lparr>core_atoms = [\<lparr>element = ''Pb'', coordinates = (0, 0, 0)\<rparr>,
                     \<lparr>element = ''Pb'', coordinates = (4, 0, 0)\<rparr>],
       shell_atoms = []\<rparr> = Inr (8, out)"
  by (simp add: estimate_total_molecular_volume_def example_analyzer_def
      atom_volume_def group_warning_def volume_key_def charges_get_def AList.update.simps
      split: prod.splits)


lemma example_file_a:
  "\<exists>r. file_records example_externals example_analyzer shape_type ''a.pdb'' = [r]
      \<and> pdb_file r = ''a.pdb'' \<and> cluster_size r = 1 \<and> volume r = 4"
proof -
  obtain out where v: "estimate_total_molecular_volume example_analyzer example_cluster = Inr (4, out)"
    using example_volume_a by blast
  have m: "volume_method example_analyzer = ''ionic_radius''"
    by (simp add: example_analyzer_def)
  have l: "load_structure example_externals ''a.pdb'' = Inr example_cluster"
    by (simp add: example_externals_def)
  have t: "filter (\<lambda>a. element a \<in> set (target_elements example_analyzer))
      (core_atoms example_cluster) = [\<lparr>element = ''Pb'', coordinates = (0, 0, 0)\<rparr>]"
    by (simp add: example_analyzer_def example_cluster_def)
  show ?thesis
    using ionic_file_records [OF m l _ v, of shape_type] by (simp add: t)
qed

lemma example_file_c:
  "\<exists>r. file_records example_externals example_analyzer shape_type ''c.pdb'' = [r]
      \<and> pdb_file r = ''c.pdb'' \<and> cluster_size r = 2 \<and> volume r = 8"
proof -
  let ?h = "\<lparr>core_atoms = [\<lparr>element = ''Pb'', coordinates = (0, 0, 0)\<rparr>,
                            \<lparr>element = ''Pb'', coordinates = (4, 0, 0)\<rparr>],
              shell_atoms = []\<rparr>"
  obtain out where v: "estimate_total_molecular_volume example_analyzer ?h = Inr (8, out)"
    using example_volume_c by blast
  have m: "volume_method example_analyzer = ''ionic_radius''"
    by (simp add: example_analyzer_def)
  have l: "load_structure example_externals ''c.pdb'' = Inr ?h"
    by (simp add: example_externals_def)
  show ?thesis
    using ionic_file_records [OF m l _ v, of shape_type]
    by (simp add: example_analyzer_def numeral_2_eq_2)
qed

lemma example_file_bad:
  "process_body example_externals self shape_type ''bad.pdb'' = Inl (LoadError ''bad.pdb'')"
  by (simp add: process_body_def example_externals_def)

text \<open>
  What holds of the worker and of the run up to the statistics: an exception of the body
  is caught and printed with the file name, the file gets no record, and every collection
  of the run is the one of the run without the file.
\<close>

lemma worker_catches_exception:
  assumes "process_body ext self shape_type file = Inl e"
  shows "process_pdb_file ext self shape_type file st =
           (None, st\<lparr>stdout := stdout st @ [ErrorProcessingFile file e]\<rparr>)"
    and "file_records ext self shape_type file = []"
    and "file_output ext self shape_type file = [ErrorProcessingFile file e]"
  using assms by (simp_all add: process_pdb_file_def file_records_def file_output_def)

lemma failing_file_leaves_results:
  assumes "process_body ext self shape_type file = Inl e"
  shows "ErrorProcessingFile file e
           \<in> set (stdout (run_batch ext self shape_type (fs1 @ file # fs2) st))"
    and "cluster_data (run_batch ext self shape_type (fs1 @ file # fs2) st) =
           cluster_data (run_batch ext self shape_type (fs1 @ fs2) st)"
    and "cluster_size_distribution (run_batch ext self shape_type (fs1 @ file # fs2) st) =
           cluster_size_distribution (run_batch ext self shape_type (fs1 @ fs2) st)"
    and "average_volumes_per_size (run_batch ext self shape_type (fs1 @ file # fs2) st) =
           average_volumes_per_size (run_batch ext self shape_type (fs1 @ fs2) st)"
    and "all_cluster_sizes (run_batch ext self shape_type (fs1 @ file # fs2) st) =
           all_cluster_sizes (run_batch ext self shape_type (fs1 @ fs2) st)"
    and "coordination_stats_per_size (run_batch ext self shape_type (fs1 @ file # fs2) st) =
           coordination_stats_per_size (run_batch ext self shape_type (fs1 @ fs2) st)"
  using worker_catches_exception(2,3) [OF assms]
  by (simp_all add: run_batch_cluster_data run_batch_distribution run_batch_averages
      run_batch_stdout run_batch_all_cluster_sizes run_batch_stats_per_size)

text \<open>
  When the batch call returns: it does exactly when the analyzer has a target element, the
  run ends with at least one record and the total cluster volume is not zero. A run that
  ends without a record makes the volume-percentage plot raise.
\<close>

lemma bucket_volumes_Nil_iff:
  "bucket_volumes buckets ds = [] \<longleftrightarrow> buckets = [] \<and> ds = []"
proof (induction ds arbitrary: buckets)
  case Nil
  then show ?case by simp
next
  case (Cons d ds)
  have "append_to_bucket (cluster_size d) (volume d) buckets \<noteq> []"
    by (cases buckets) (auto simp: append_to_bucket_def)
  then show ?case using Cons.IH by simp
qed

lemma plot_volume_percentage_returns:
  "(\<exists>m. plot_volume_percentage_of_scatterers buckets = Inr m)
     \<longleftrightarrow> buckets \<noteq> [] \<and> total_cluster_volume buckets \<noteq> 0"
proof (cases "buckets = []")
  case True
  then show ?thesis
    by (simp add: plot_volume_percentage_of_scatterers_def volume_percentage_mode_def
        sorted_sizes_def np_argmax_def)
next
  case False
  then have "sort (map fst buckets) \<noteq> []"
    by (metis length_0_conv length_map length_sort)
  then obtain sz rest where "sort (map fst buckets) = sz # rest"
    by (cases "sort (map fst buckets)") auto
  with False show ?thesis
    by (auto simp: plot_volume_percentage_of_scatterers_def volume_percentage_mode_def
        sorted_sizes_def np_argmax_def Let_def)
qed

lemma plot_volume_percentage_empty:
  "plot_volume_percentage_of_scatterers [] =
     Inl (ValueError ''attempt to get an argmax of an empty sequence'')"
  by (simp add: plot_volume_percentage_of_scatterers_def volume_percentage_mode_def
      sorted_sizes_def np_argmax_def)

lemma analyze_clusters_returns:
  "(\<exists>st'. analyze_clusters ext self shape_type files st = Inr st') \<longleftrightarrow>
     target_elements self \<noteq> []
     \<and> cluster_data st @ concat (map (file_records ext self shape_type) files) \<noteq> []
     \<and> total_cluster_volume (bucket_volumes []
          (cluster_data st @ concat (map (file_records ext self shape_type) files))) \<noteq> 0"
proof -
  let ?b = "bucket_volumes []
      (cluster_data st @ concat (map (file_records ext self shape_type) files))"
  have "(\<exists>st'. analyze_clusters ext self shape_type files st = Inr st') \<longleftrightarrow>
      target_elements self \<noteq> [] \<and> (\<exists>m. plot_volume_percentage_of_scatterers ?b = Inr m)"
    by (auto simp: analyze_clusters_def Let_def run_batch_distribution
        split: list.splits sum.splits)
  then show ?thesis
    unfolding plot_volume_percentage_returns bucket_volumes_Nil_iff by simp
qed

lemma analyze_clusters_result:
  assumes "analyze_clusters ext self shape_type files st = Inr st'"
  shows "st' = run_batch ext self shape_type files st"
  using assms by (auto simp: analyze_clusters_def Let_def split: list.splits sum.splits)

lemma analyze_clusters_no_record:
  assumes "target_elements self \<noteq> []" and "cluster_data st = []"
    and "\<forall>f \<in> set files. file_records ext self shape_type f = []"
  shows "analyze_clusters ext self shape_type files st =
     Inl (ValueError ''attempt to get an argmax of an empty sequence'')"
proof -
  have none: "concat (map (file_records ext self shape_type) files) = []"
    using assms(3) by (induction files) auto
  have "cluster_size_distribution (run_batch ext self shape_type files st) = []"
    unfolding run_batch_distribution none assms(2) by simp
  then show ?thesis
    using assms(1)
    by (cases "target_elements self")
       (simp_all add: analyze_clusters_def Let_def plot_volume_percentage_empty)
qed

lemma example_batch_returns:
  "\<exists>st'. analyze_clusters example_externals example_analyzer ''sphere''
      [''a.pdb'', ''bad.pdb'', ''c.pdb''] initial_state = Inr st'
     \<and> map pdb_file (cluster_data st') = [''a.pdb'', ''c.pdb'']
     \<and> ErrorProcessingFile ''bad.pdb'' (LoadError ''bad.pdb'') \<in> set (stdout st')"
proof -
  let ?fs = "[''a.pdb'', ''bad.pdb'', ''c.pdb'']"
  obtain ra where ra: "file_records example_externals example_analyzer ''sphere'' ''a.pdb'' = [ra]"
      "pdb_file ra = ''a.pdb''" "cluster_size ra = 1" "volume ra = 4"
    using example_file_a by blast
  obtain rc where rc: "file_records example_externals example_analyzer ''sphere'' ''c.pdb'' = [rc]"
      "pdb_file rc = ''c.pdb''" "cluster_size rc = 2" "volume rc = 8"
    using example_file_c by blast
  note bad = worker_catches_exception(2,3) [OF example_file_bad,
      of example_analyzer "''sphere''"]
  have recs: "cluster_data initial_state
      @ concat (map (file_records example_externals example_analyzer ''sphere'') ?fs) = [ra, rc]"
    by (simp add: ra rc bad initial_state_def)
  have "total_cluster_volume (bucket_volumes [] [ra, rc]) = 12"
    by (simp add: total_cluster_volume_def append_to_bucket_def ra rc np_mean_def)
  then have "\<exists>st'. analyze_clusters example_externals example_analyzer ''sphere'' ?fs
      initial_state = Inr st'"
    unfolding analyze_clusters_returns recs by (simp add: example_analyzer_def)
  then obtain st' where st': "analyze_clusters example_externals example_analyzer ''sphere'' ?fs
      initial_state = Inr st'" by blast
  have eq: "st' = run_batch example_externals example_analyzer ''sphere'' ?fs initial_state"
    using st' by (rule analyze_clusters_result)
  have "map pdb_file (cluster_data st') = [''a.pdb'', ''c.pdb'']"
    unfolding eq run_batch_cluster_data recs by (simp add: ra rc)
  moreover have "ErrorProcessingFile ''bad.pdb'' (LoadError ''bad.pdb'') \<in> set (stdout st')"
    unfolding eq run_batch_stdout by (simp add: bad)
  ultimately show ?thesis using st' by (intro exI [of _ st'] conjI)
qed

text \<open>
  Claim C1, on a batch of one file that the loader cannot read: the worker catches the
  exception of the loader, prints it with the file name and returns the empty result, and
  the batch call then ends in the \<^verbatim>\<open>ValueError\<close> that
  \<^verbatim>\<open>np.argmax\<close> raises on the empty list of volume percentages: the call does
  not return.
\<close>

theorem batch_raises_after_caught_failure:
  "process_pdb_file example_externals example_analyzer ''sphere'' ''bad.pdb'' initial_state =
     (None, initial_state\<lparr>stdout := [ErrorProcessingFile ''bad.pdb'' (LoadError ''bad.pdb'')]\<rparr>)
   \<and> analyze_clusters example_externals example_analyzer ''sphere'' [''bad.pdb''] initial_state =
       Inl (ValueError ''attempt to get an argmax of an empty sequence'')"
proof
  show "process_pdb_file example_externals example_analyzer ''sphere'' ''bad.pdb'' initial_state =
     (None, initial_state\<lparr>stdout := [ErrorProcessingFile ''bad.pdb'' (LoadError ''bad.pdb'')]\<rparr>)"
    using worker_catches_exception(1) [OF example_file_bad, of example_analyzer "''sphere''"
        initial_state]
    by (simp add: initial_state_def)
  show "analyze_clusters example_externals example_analyzer ''sphere'' [''bad.pdb''] initial_state =
       Inl (ValueError ''attempt to get an argmax of an empty sequence'')"
  proof (rule analyze_clusters_no_record)
    show "target_elements example_analyzer \<noteq> []" by (simp add: example_analyzer_def)
    show "cluster_data initial_state = []" by (simp add: initial_state_def)
    show "\<forall>f \<in> set [''bad.pdb'']. file_records example_externals example_analyzer ''sphere'' f = []"
      using worker_catches_exception(2) [OF example_file_bad] by simp
  qed
qed

text \<open>
  The body of the worker for a method name that is not recognized, and for the method
  \<^verbatim>\<open>'radius_of_gyration'\<close>; neither gives a record, for any file, and the batch
  call that starts without data raises. The shape type is read by no branch that is
  reached.
\<close>

lemma unknown_method_body:
  assumes "volume_method self \<noteq> ''ionic_radius''" "volume_method self \<noteq> ''radius_of_gyration''"
  shows "process_body ext self shape_type file =
    (case load_structure ext file of
       Inl e \<Rightarrow> Inl e
     | Inr h \<Rightarrow>
         if filter (\<lambda>a. element a \<in> set (target_elements self)) (core_atoms h) = []
         then Inr None
         else Inl (ValueError (''Unknown volume method: '' @ volume_method self)))"
  using assms by (simp add: process_body_def dispatch_volume_def Let_def split: sum.splits)

lemma rg_method_body:
  assumes "volume_method self = ''radius_of_gyration''"
  shows "process_body ext self shape_type file =
    (case load_structure ext file of
       Inl e \<Rightarrow> Inl e
     | Inr h \<Rightarrow>
         if filter (\<lambda>a. element a \<in> set (target_elements self)) (core_atoms h) = []
         then Inr None
         else (case target_charges (charges self)
                      (filter (\<lambda>a. element a \<in> set (target_elements self)) (core_atoms h)) of
                 Inl e \<Rightarrow> Inl e
               | Inr atom_charges \<Rightarrow> Inl (NameError ''RadiusOfGyrationCalculator'')))"
  using assms by (simp add: process_body_def dispatch_volume_def Let_def split: sum.splits)

lemma no_record_without_ionic_radius:
  assumes "volume_method self \<noteq> ''ionic_radius''"
  shows "file_records ext self shape_type file = []"
proof (cases "volume_method self = ''radius_of_gyration''")
  case True
  then show ?thesis
    by (simp add: file_records_def rg_method_body split: sum.splits)
next
  case False
  with assms show ?thesis
    by (simp add: file_records_def unknown_method_body split: sum.splits)
qed

lemma concat_no_records:
  assumes "\<And>f. file_records ext self shape_type f = []"
  shows "concat (map (file_records ext self shape_type) files) = []"
  by (induction files) (simp_all add: assms)

lemma batch_raises_without_ionic_radius:
  assumes "volume_method self \<noteq> ''ionic_radius''" and "cluster_data st = []"
  shows "\<exists>e. analyze_clusters ext self shape_type files st = Inl e"
proof (cases "target_elements self")
  case Nil
  then show ?thesis by (simp add: analyze_clusters_def Let_def)
next
  case (Cons t ts)
  then have "analyze_clusters ext self shape_type files st =
     Inl (ValueError ''attempt to get an argmax of an empty sequence'')"
    using assms by (intro analyze_clusters_no_record) (simp_all add: no_record_without_ionic_radius)
  then show ?thesis by blast
qed

lemma shape_type_not_read:
  "process_body ext self shape_type file = process_body ext self shape_type' file"
  by (simp add: process_body_def dispatch_volume_def Let_def split: sum.splits)

lemma run_files_cong:
  assumes "\<And>file. process_body ext self s1 file = process_body ext self s2 file"
  shows "run_files ext self s1 files st = run_files ext self s2 files st"
  by (induction files arbitrary: st) (simp_all add: process_pdb_file_def assms)

text \<open>
  Claim C2, as the code has it. The constructor stores any volume-method name: for a name
  other than \<^verbatim>\<open>'ionic_radius'\<close> it returns the analyzer and raises nothing. An
  unrecognized method name is found in the worker of every file that loads with a target
  atom: the worker raises the \<^verbatim>\<open>ValueError\<close>, catches it, prints it with the file
  name and returns the empty result; the run goes through all files, no file gets a
  record, and the count of files without a record that is printed at the end is the number
  of files. With the method \<^verbatim>\<open>'ionic_radius'\<close> the shape type is never read, and
  the run is the one of any other shape type.
\<close>

theorem unknown_configuration_found_per_file:
  "(volume_method self \<noteq> ''ionic_radius'' \<longrightarrow>
      new_analyzer ext (target_elements self) (neighbor_elements self) (distance_thresholds self)
        (charges self) (volume_method self) = Inr (self\<lparr>radius_lookup := None\<rparr>))
   \<and> (volume_method self \<noteq> ''ionic_radius'' \<and> volume_method self \<noteq> ''radius_of_gyration'' \<longrightarrow>
        (\<forall>file h. load_structure ext file = Inr h
              \<and> filter (\<lambda>a. element a \<in> set (target_elements self)) (core_atoms h) \<noteq> [] \<longrightarrow>
              process_pdb_file ext self shape_type file st =
                (None, st\<lparr>stdout := stdout st @
                   [ErrorProcessingFile file
                      (ValueError (''Unknown volume method: '' @ volume_method self))]\<rparr>))
        \<and> (\<forall>file. file_records ext self shape_type file = [])
        \<and> cluster_data (run_batch ext self shape_type files st) = cluster_data st
        \<and> stdout (run_batch ext self shape_type files st) =
            stdout st @ concat (map (file_output ext self shape_type) files)
              @ [NoTargetCount (length files)])
   \<and> (volume_method self = ''ionic_radius'' \<longrightarrow>
        run_batch ext self shape_type files st = run_batch ext self shape_type' files st)"
proof (intro conjI impI)
  show "new_analyzer ext (target_elements self) (neighbor_elements self) (distance_thresholds self)
        (charges self) (volume_method self) = Inr (self\<lparr>radius_lookup := None\<rparr>)"
    if "volume_method self \<noteq> ''ionic_radius''"
    using that by (simp add: new_analyzer_def Let_def)
next
  assume m: "volume_method self \<noteq> ''ionic_radius'' \<and> volume_method self \<noteq> ''radius_of_gyration''"
  have body: "process_body ext self shape_type f =
    (case load_structure ext f of
       Inl e \<Rightarrow> Inl e
     | Inr h \<Rightarrow>
         if filter (\<lambda>a. element a \<in> set (target_elements self)) (core_atoms h) = []
         then Inr None
         else Inl (ValueError (''Unknown volume method: '' @ volume_method self)))" for f
    using m unknown_method_body by blast
  have none: "file_records ext self shape_type f = []" for f
    using m by (simp add: no_record_without_ionic_radius)
  show "\<forall>file. file_records ext self shape_type file = []"
    using none by simp
  show "cluster_data (run_batch ext self shape_type files st) = cluster_data st"
    by (simp add: run_batch_cluster_data concat_no_records none)
  show "stdout (run_batch ext self shape_type files st) =
            stdout st @ concat (map (file_output ext self shape_type) files)
              @ [NoTargetCount (length files)]"
    by (simp add: run_batch_stdout none)
  show "\<forall>file h. load_structure ext file = Inr h
              \<and> filter (\<lambda>a. element a \<in> set (target_elements self)) (core_atoms h) \<noteq> [] \<longrightarrow>
              process_pdb_file ext self shape_type file st =
                (None, st\<lparr>stdout := stdout st @
                   [ErrorProcessingFile file
                      (ValueError (''Unknown volume method: '' @ volume_method self))]\<rparr>)"
    by (simp add: process_pdb_file_def body)
next
  have "run_files ext self shape_type files st' = run_files ext self shape_type' files st'" for st'
    using shape_type_not_read run_files_cong by blast
  then show "run_batch ext self shape_type files st = run_batch ext self shape_type' files st"
    by (simp add: run_batch_def)
qed

text \<open>
  The example analyzer with the method name \<^verbatim>\<open>'convex_hull'\<close>, and with the
  shape type \<^verbatim>\<open>'cube'\<close>.
\<close>

theorem unknown_configuration_found_per_file_witness:
  "volume_method (example_analyzer\<lparr>volume_method := ''convex_hull''\<rparr>) \<noteq> ''ionic_radius''
   \<and> volume_method (example_analyzer\<lparr>volume_method := ''convex_hull''\<rparr>) \<noteq> ''radius_of_gyration''
   \<and> load_structure example_externals ''a.pdb'' = Inr example_cluster
   \<and> new_analyzer example_externals [''Pb''] [''I'', ''S'']
        [((''Pb'', ''I''), 7 / 2), ((''Pb'', ''S''), 3)]
        [(''Pb'', (2, 6)), (''I'', (- 1, 6)), (''S'', (- 2, 4)), (''Q'', (1, 6))] ''convex_hull''
      = Inr (example_analyzer\<lparr>volume_method := ''convex_hull'', radius_lookup := None\<rparr>)
   \<and> process_pdb_file example_externals (example_analyzer\<lparr>volume_method := ''convex_hull''\<rparr>)
        ''sphere'' ''a.pdb'' initial_state =
        (None, initial_state\<lparr>stdout :=
           [ErrorProcessingFile ''a.pdb'' (ValueError ''Unknown volume method: convex_hull'')]\<rparr>)
   \<and> file_records example_externals (example_analyzer\<lparr>volume_method := ''convex_hull''\<rparr>)
        ''sphere'' ''a.pdb'' = []
   \<and> cluster_data (run_batch example_externals
        (example_analyzer\<lparr>volume_method := ''convex_hull''\<rparr>) ''sphere''
        [''a.pdb'', ''solvent.pdb''] initial_state) = []
   \<and> stdout (run_batch example_externals
        (example_analyzer\<lparr>volume_method := ''convex_hull''\<rparr>) ''sphere''
        [''a.pdb'', ''solvent.pdb''] initial_state) =
       [ErrorProcessingFile ''a.pdb'' (ValueError ''Unknown volume method: convex_hull''),
        NoTargetCount 2]
   \<and> run_batch example_externals example_analyzer ''cube'' [''a.pdb''] initial_state =
       run_batch example_externals example_analyzer ''sphere'' [''a.pdb''] initial_state"
proof -
  let ?m = "example_analyzer\<lparr>volume_method := ''convex_hull''\<rparr>"
  note M = unknown_configuration_found_per_file
    [of ?m example_externals "''sphere''" initial_state "[''a.pdb'', ''solvent.pdb'']"]
  note I = unknown_configuration_found_per_file
    [of example_analyzer example_externals "''cube''" initial_state "[''a.pdb'']" "''sphere''"]
  have m: "volume_method ?m \<noteq> ''ionic_radius''" "volume_method ?m \<noteq> ''radius_of_gyration''"
    by simp_all
  have la: "load_structure example_externals ''a.pdb'' = Inr example_cluster"
    by (simp add: example_externals_def)
  have ta: "filter (\<lambda>a. element a \<in> set (target_elements example_analyzer))
      (core_atoms example_cluster) = [\<lparr>element = ''Pb'', coordinates = (0, 0, 0)\<rparr>]"
    by (simp add: example_analyzer_def example_cluster_def)
  have s0: "stdout initial_state = []" "cluster_data initial_state = []"
    by (simp_all add: initial_state_def)
  have oa: "file_output example_externals ?m ''sphere'' ''a.pdb'' =
      [ErrorProcessingFile ''a.pdb'' (ValueError ''Unknown volume method: convex_hull'')]"
    by (simp add: file_output_def unknown_method_body la ta)
  have os: "file_output example_externals ?m ''sphere'' ''solvent.pdb'' = []"
    by (simp add: file_output_def unknown_method_body example_externals_def example_analyzer_def)
  have c1: "new_analyzer example_externals [''Pb''] [''I'', ''S'']
        [((''Pb'', ''I''), 7 / 2), ((''Pb'', ''S''), 3)]
        [(''Pb'', (2, 6)), (''I'', (- 1, 6)), (''S'', (- 2, 4)), (''Q'', (1, 6))] ''convex_hull''
      = Inr (example_analyzer\<lparr>volume_method := ''convex_hull'', radius_lookup := None\<rparr>)"
    using M by (simp add: example_analyzer_def)
  have c2: "process_pdb_file example_externals ?m ''sphere'' ''a.pdb'' initial_state =
        (None, initial_state\<lparr>stdout :=
           [ErrorProcessingFile ''a.pdb'' (ValueError ''Unknown volume method: convex_hull'')]\<rparr>)"
    using M m la ta s0 by simp
  have c3: "file_records example_externals ?m ''sphere'' ''a.pdb'' = []"
    using M m by simp
  have c4: "cluster_data (run_batch example_externals ?m ''sphere''
        [''a.pdb'', ''solvent.pdb''] initial_state) = []"
    using M m s0 by simp
  have c5: "stdout (run_batch example_externals ?m ''sphere''
        [''a.pdb'', ''solvent.pdb''] initial_state) =
       [ErrorProcessingFile ''a.pdb'' (ValueError ''Unknown volume method: convex_hull''),
        NoTargetCount 2]"
    using M m s0 oa os by simp
  have c6: "run_batch example_externals example_analyzer ''cube'' [''a.pdb''] initial_state =
       run_batch example_externals example_analyzer ''sphere'' [''a.pdb''] initial_state"
    using I by (simp add: example_analyzer_def)
  show ?thesis using m la c1 c2 c3 c4 c5 c6 by (intro conjI)
qed

text \<open>
  Claim C2 as stated fails: with the method name \<^verbatim>\<open>'convex_hull'\<close> the
  constructor returns an analyzer, the batch fans out over both files and prints the error
  once per file, and the exception that ends the call is the one of the plot, not a
  configuration error; with the method \<^verbatim>\<open>'ionic_radius'\<close> the shape type
  \<^verbatim>\<open>'cube'\<close> raises nowhere and the file gets its record.
\<close>

theorem unknown_configuration_counterexample:
  "new_analyzer example_externals [''Pb''] [''I''] [] [(''Pb'', (2, 6))] ''convex_hull''
     = Inr \<lparr>target_elements = [''Pb''], neighbor_elements = [''I''], distance_thresholds = [],
            charges = [(''Pb'', (2, 6))], volume_method = ''convex_hull'', radius_lookup = None\<rparr>
   \<and> stdout (run_batch example_externals
        \<lparr>target_elements = [''Pb''], neighbor_elements = [''I''], distance_thresholds = [],
         charges = [(''Pb'', (2, 6))], volume_method = ''convex_hull'', radius_lookup = None\<rparr>
        ''sphere'' [''a.pdb'', ''c.pdb''] initial_state)
     = [ErrorProcessingFile ''a.pdb'' (ValueError ''Unknown volume method: convex_hull''),
        ErrorProcessingFile ''c.pdb'' (ValueError ''Unknown volume method: convex_hull''),
        NoTargetCount 2]
   \<and> analyze_clusters example_externals
        \<lparr>target_elements = [''Pb''], neighbor_elements = [''I''], distance_thresholds = [],
         charges = [(''Pb'', (2, 6))], volume_method = ''convex_hull'', radius_lookup = None\<rparr>
        ''sphere'' [''a.pdb'', ''c.pdb''] initial_state
     = Inl (ValueError ''attempt to get an argmax of an empty sequence'')
   \<and> map pdb_file (cluster_data (run_batch example_externals example_analyzer ''cube''
        [''a.pdb''] initial_state)) = [''a.pdb'']"
proof -
  let ?m = "\<lparr>target_elements = [''Pb''], neighbor_elements = [''I''], distance_thresholds = [],
         charges = [(''Pb'', (2, 6))], volume_method = ''convex_hull'', radius_lookup = None\<rparr>"
  have body: "process_body example_externals ?m ''sphere'' f =
    (case load_structure example_externals f of
       Inl e \<Rightarrow> Inl e
     | Inr h \<Rightarrow>
         if filter (\<lambda>a. element a \<in> set (target_elements ?m)) (core_atoms h) = []
         then Inr None
         else Inl (ValueError (''Unknown volume method: '' @ volume_method ?m)))" for f
    by (rule unknown_method_body) simp_all
  have la: "load_structure example_externals ''a.pdb'' = Inr example_cluster"
    by (simp add: example_externals_def)
  have lc: "load_structure example_externals ''c.pdb'' =
      Inr \<lparr>core_atoms = [\<lparr>element = ''Pb'', coordinates = (0, 0, 0)\<rparr>,
                         \<lparr>element = ''Pb'', coordinates = (4, 0, 0)\<rparr>],
           shell_atoms = []\<rparr>"
    by (simp add: example_externals_def)
  have a: "process_body example_externals ?m ''sphere'' ''a.pdb'' =
      Inl (ValueError ''Unknown volume method: convex_hull'')"
    by (simp add: body la example_cluster_def)
  have c: "process_body example_externals ?m ''sphere'' ''c.pdb'' =
      Inl (ValueError ''Unknown volume method: convex_hull'')"
    by (simp add: body lc)
  have out: "stdout (run_batch example_externals ?m ''sphere'' [''a.pdb'', ''c.pdb'']
      initial_state)
     = [ErrorProcessingFile ''a.pdb'' (ValueError ''Unknown volume method: convex_hull''),
        ErrorProcessingFile ''c.pdb'' (ValueError ''Unknown volume method: convex_hull''),
        NoTargetCount 2]"
    by (simp add: run_batch_stdout file_output_def file_records_def a c initial_state_def)
  have new: "new_analyzer example_externals [''Pb''] [''I''] [] [(''Pb'', (2, 6))] ''convex_hull''
     = Inr ?m"
    by (simp add: new_analyzer_def)
  have raises: "analyze_clusters example_externals ?m ''sphere'' [''a.pdb'', ''c.pdb'']
      initial_state = Inl (ValueError ''attempt to get an argmax of an empty sequence'')"
    by (rule analyze_clusters_no_record)
       (simp_all add: initial_state_def file_records_def a c)
  have cube: "map pdb_file (cluster_data (run_batch example_externals example_analyzer
      ''cube'' [''a.pdb''] initial_state)) = [''a.pdb'']"
    using example_file_a [of "''cube''"]
    by (auto simp: run_batch_cluster_data initial_state_def)
  show ?thesis using new out raises cube by (intro conjI)
qed

text \<open>
  The repository's own \<^verbatim>\<open>estimate_volume_using_rg\<close>, which the batch does not
  call, computes the sphere volume of the radius of gyration over all atoms of core and
  shell, with the charge 0 for an element the table lacks. For two lead atoms of charge 2
  at distance 4 both weigh 80, the centre is midway, the radius of gyration is 2 and the
  volume is \<open>32/3 \<pi>\<close>.
\<close>

lemma zip_maps: "zip (map f xs) (map g xs) = map (\<lambda>x. (f x, g x)) xs"
  by (induction xs) simp_all

lemma calculate_radius_of_gyration_formula:
  assumes "(\<Sum>a\<leftarrow>ts. w a) \<noteq> 0"
  shows "calculate_radius_of_gyration (map coordinates ts) (map w ts) =
     Inr (sqrt ((\<Sum>a\<leftarrow>ts. w a * sq_dist (coordinates a)
                  ((\<Sum>a\<leftarrow>ts. w a * fst (coordinates a)) / (\<Sum>a\<leftarrow>ts. w a),
                   (\<Sum>a\<leftarrow>ts. w a * fst (snd (coordinates a))) / (\<Sum>a\<leftarrow>ts. w a),
                   (\<Sum>a\<leftarrow>ts. w a * snd (snd (coordinates a))) / (\<Sum>a\<leftarrow>ts. w a)))
           / (\<Sum>a\<leftarrow>ts. w a)))"
  using assms
  by (simp add: calculate_radius_of_gyration_def np_average_def zip_maps comp_def Let_def)

lemma get_electron_counts_weights:
  assumes "\<forall>a \<in> set as. \<exists>d. db (element a) = Inr d
      \<and> w a = electrons d - fst (charges_get tbl (element a))"
  shows "get_electron_counts db tbl as = Inr (map w as)"
  using assms by (induction as) auto

lemma estimate_volume_using_rg_formula:
  assumes "\<forall>a \<in> set (core_atoms h @ shell_atoms h). \<exists>d. db (element a) = Inr d
      \<and> w a = electrons d - fst (charges_get (charges self) (element a))"
    and "(\<Sum>a\<leftarrow>core_atoms h @ shell_atoms h. w a) \<noteq> 0"
    and "c = ((\<Sum>a\<leftarrow>core_atoms h @ shell_atoms h. w a * fst (coordinates a))
                / (\<Sum>a\<leftarrow>core_atoms h @ shell_atoms h. w a),
              (\<Sum>a\<leftarrow>core_atoms h @ shell_atoms h. w a * fst (snd (coordinates a)))
                / (\<Sum>a\<leftarrow>core_atoms h @ shell_atoms h. w a),
              (\<Sum>a\<leftarrow>core_atoms h @ shell_atoms h. w a * snd (snd (coordinates a)))
                / (\<Sum>a\<leftarrow>core_atoms h @ shell_atoms h. w a))"
  shows "estimate_volume_using_rg db self h =
     Inr ((4 / 3) * pi *
       (sqrt ((\<Sum>a\<leftarrow>core_atoms h @ shell_atoms h. w a * sq_dist (coordinates a) c)
               / (\<Sum>a\<leftarrow>core_atoms h @ shell_atoms h. w a))) ^ 3)"
proof -
  have "calculate_radius_of_gyration (map coordinates (core_atoms h @ shell_atoms h))
      (map w (core_atoms h @ shell_atoms h)) =
      Inr (sqrt ((\<Sum>a\<leftarrow>core_atoms h @ shell_atoms h. w a * sq_dist (coordinates a) c)
               / (\<Sum>a\<leftarrow>core_atoms h @ shell_atoms h. w a)))"
    unfolding assms(3) by (rule calculate_radius_of_gyration_formula [OF assms(2)])
  then show ?thesis
    using get_electron_counts_weights [OF assms(1)]
    by (simp add: estimate_volume_using_rg_def del: map_append)
qed

lemma estimate_volume_using_rg_example:
  "estimate_volume_using_rg example_db example_analyzer
     \<lparr>core_atoms = [\<lparr>element = ''Pb'', coordinates = (0, 0, 0)\<rparr>,
                    \<lparr>element = ''Pb'', coordinates = (4, 0, 0)\<rparr>],
      shell_atoms = []\<rparr> = Inr (32 / 3 * pi)"
proof -
  have "sqrt (4::real) = 2"
    using real_sqrt_abs [of 2] by simp
  then show ?thesis
    by (simp add: estimate_volume_using_rg_def calculate_radius_of_gyration_def np_average_def
        example_db_def example_analyzer_def charges_get_def sq_dist_def vec_sub_def Let_def)
qed

text \<open>
  Claim C6, on the file with the two lead atoms, with the volume method
  \<^verbatim>\<open>'radius_of_gyration'\<close> and the shape \<^verbatim>\<open>'sphere'\<close>: the body of the
  worker raises the \<^verbatim>\<open>NameError\<close> of the unbound calculator name, the worker
  prints it with the file name and returns the empty result, and the run ends without a
  record: no volume is returned.
\<close>

theorem rg_sphere_raises_name_error:
  "process_body example_externals (example_analyzer\<lparr>volume_method := ''radius_of_gyration''\<rparr>)
     ''sphere'' ''c.pdb'' = Inl (NameError ''RadiusOfGyrationCalculator'')
   \<and> process_pdb_file example_externals (example_analyzer\<lparr>volume_method := ''radius_of_gyration''\<rparr>)
       ''sphere'' ''c.pdb'' initial_state =
       (None, initial_state\<lparr>stdout :=
          [ErrorProcessingFile ''c.pdb'' (NameError ''RadiusOfGyrationCalculator'')]\<rparr>)
   \<and> cluster_data (run_batch example_externals
        (example_analyzer\<lparr>volume_method := ''radius_of_gyration''\<rparr>) ''sphere'' [''c.pdb'']
        initial_state) = []"
proof -
  let ?g = "example_analyzer\<lparr>volume_method := ''radius_of_gyration''\<rparr>"
  have body: "process_body example_externals ?g ''sphere'' ''c.pdb'' =
      Inl (NameError ''RadiusOfGyrationCalculator'')"
    by (simp add: rg_method_body example_externals_def example_analyzer_def)
  have "file_records example_externals ?g ''sphere'' f = []" for f
    by (rule no_record_without_ionic_radius) simp
  then have "cluster_data (run_batch example_externals ?g ''sphere'' [''c.pdb''] initial_state) = []"
    by (simp add: run_batch_cluster_data initial_state_def)
  then show ?thesis
    using body worker_catches_exception(1) [OF body, of initial_state]
    by (simp add: initial_state_def)
qed


lemma append_counts_nonempty:
  "\<forall>(p, l) \<in> set cn. l \<noteq> [] \<Longrightarrow> \<forall>(p, l) \<in> set (append_counts e cn cs). l \<noteq> []"
proof (induction cs arbitrary: cn)
  case Nil
  then show ?case by simp
next
  case (Cons x cs)
  obtain neighbor k where x: "x = (neighbor, k)" by (cases x)
  let ?l = "(case map_of cn (e, neighbor) of None \<Rightarrow> [] | Some l \<Rightarrow> l) @ [k]"
  have "\<forall>(p, l) \<in> set (AList.update (e, neighbor) ?l cn). l \<noteq> []"
    using Cons.prems set_alist_update_subset [of "(e, neighbor)" ?l cn] by auto
  then show ?case unfolding x by (simp add: Cons.IH)
qed

lemma coordination_loop_nonempty:
  "\<forall>(p, l) \<in> set cn. l \<noteq> [] \<Longrightarrow>
   \<forall>(p, l) \<in> set (coordination_loop self all_atoms cn ts). l \<noteq> []"
proof (induction ts arbitrary: cn)
  case Nil
  then show ?case by simp
next
  case (Cons a ts)
  show ?case
    using Cons.IH [OF append_counts_nonempty [OF Cons.prems]] by simp
qed

lemma coordination_lists_nonempty:
  "(p, l) \<in> set (coordination_loop self all_atoms [] ts) \<Longrightarrow> l \<noteq> []"
  using coordination_loop_nonempty [of "[]" self all_atoms ts] by auto

end
